theory Spec2Isabelle
  imports Complex_Main "HOL-Library.Sublist" "HOL-Library.Multiset"
begin

section \<open>JavaScript values used by the page\<close>

subsection \<open>Numbers\<close>

text \<open>
  A JavaScript \<^verbatim>\<open>number\<close> is an IEEE-754 double. The page itself tells the special
  values apart (\<^verbatim>\<open>Number.isFinite\<close>, \<^verbatim>\<open>Number.isNaN\<close>,
  \<^verbatim>\<open>Number.NEGATIVE_INFINITY\<close>), so they are constructors of the model. A finite
  double is carried as the real number it denotes. Arithmetic computes the exact real
  result and then applies \<open>round_num\<close>, which models overflow to an infinity (a result
  of magnitude at least \<open>2^1024 - 2^970\<close> rounds to an infinity) and leaves a result in
  range as it is: the rounding of the mantissa to 53 bits and the sign of zero are not
  part of the model.
\<close>

datatype jsnum = Fin real | PInf | NInf | NaN

definition overflow_bound :: real where
  "overflow_bound = 2 ^ 1024 - 2 ^ 970"

definition round_num :: "real \<Rightarrow> jsnum" where
  "round_num x =
     (if overflow_bound \<le> x then PInf
      else if x \<le> - overflow_bound then NInf
      else Fin x)"

text \<open>\<^verbatim>\<open>Number.isFinite\<close> and \<^verbatim>\<open>Number.isNaN\<close>.\<close>

fun isFinite :: "jsnum \<Rightarrow> bool" where
  "isFinite (Fin x) = True"
| "isFinite PInf = False"
| "isFinite NInf = False"
| "isFinite NaN = False"

fun isNaN :: "jsnum \<Rightarrow> bool" where
  "isNaN NaN = True"
| "isNaN (Fin x) = False"
| "isNaN PInf = False"
| "isNaN NInf = False"

text \<open>The sign of a number that is not NaN: \<open>-1\<close>, \<open>0\<close> or \<open>1\<close>.\<close>

fun num_sign :: "jsnum \<Rightarrow> int" where
  "num_sign (Fin x) = (if x < 0 then - 1 else if x = 0 then 0 else 1)"
| "num_sign PInf = 1"
| "num_sign NInf = - 1"
| "num_sign NaN = 0"

definition inf_of_sign :: "int \<Rightarrow> jsnum" where
  "inf_of_sign s = (if s = 0 then NaN else if 0 < s then PInf else NInf)"

text \<open>\<^verbatim>\<open>a + b\<close>: NaN is contagious, opposite infinities give NaN.\<close>

fun num_add :: "jsnum \<Rightarrow> jsnum \<Rightarrow> jsnum" where
  "num_add (Fin a) (Fin b) = round_num (a + b)"
| "num_add NaN b = NaN"
| "num_add a NaN = NaN"
| "num_add PInf NInf = NaN"
| "num_add NInf PInf = NaN"
| "num_add PInf b = PInf"
| "num_add NInf b = NInf"
| "num_add (Fin a) PInf = PInf"
| "num_add (Fin a) NInf = NInf"

fun num_neg :: "jsnum \<Rightarrow> jsnum" where
  "num_neg (Fin a) = Fin (- a)"
| "num_neg PInf = NInf"
| "num_neg NInf = PInf"
| "num_neg NaN = NaN"

text \<open>\<^verbatim>\<open>a - b\<close>.\<close>

definition num_sub :: "jsnum \<Rightarrow> jsnum \<Rightarrow> jsnum" where
  "num_sub a b = num_add a (num_neg b)"

text \<open>\<^verbatim>\<open>a * b\<close>: an infinity times zero is NaN, otherwise the signs multiply.\<close>

fun num_mul :: "jsnum \<Rightarrow> jsnum \<Rightarrow> jsnum" where
  "num_mul (Fin a) (Fin b) = round_num (a * b)"
| "num_mul NaN b = NaN"
| "num_mul a NaN = NaN"
| "num_mul a b = inf_of_sign (num_sign a * num_sign b)"

text \<open>
  \<^verbatim>\<open>a / b\<close>. A finite number over an infinity is zero, an infinity over an infinity
  is NaN. A zero divisor is taken as \<open>+0\<close> (the model has no negative zero).
\<close>

fun num_div :: "jsnum \<Rightarrow> jsnum \<Rightarrow> jsnum" where
  "num_div NaN b = NaN"
| "num_div a NaN = NaN"
| "num_div (Fin a) (Fin b) =
     (if b = 0 then inf_of_sign (num_sign (Fin a)) else round_num (a / b))"
| "num_div (Fin a) b = Fin 0"
| "num_div a (Fin b) =
     inf_of_sign (num_sign a * (if b < 0 then - 1 else 1))"
| "num_div a b = NaN"

text \<open>\<^verbatim>\<open>a < b\<close>; every comparison with NaN is false. \<open>num_gt a b\<close> is \<^verbatim>\<open>a > b\<close>.\<close>

fun num_less :: "jsnum \<Rightarrow> jsnum \<Rightarrow> bool" where
  "num_less NaN b = False"
| "num_less a NaN = False"
| "num_less (Fin a) (Fin b) = (a < b)"
| "num_less PInf b = False"
| "num_less a NInf = False"
| "num_less NInf b = True"
| "num_less a PInf = True"

definition num_gt :: "jsnum \<Rightarrow> jsnum \<Rightarrow> bool" where
  "num_gt a b = num_less b a"

subsection \<open>Strings\<close>

text \<open>
  A string is a list of \<^typ>\<open>char\<close>, the UTF-8 bytes of the text. \<open>trim\<close> removes what
  \<^verbatim>\<open>String.prototype.trim\<close> removes, the ECMAScript white space and line
  terminators, from both ends: the one-byte characters U+0009 to U+000D and U+0020,
  the two-byte U+00A0, and the three-byte U+1680, U+2000 to U+200A, U+2028, U+2029,
  U+202F, U+205F, U+3000 and U+FEFF. \<open>toUpperCase\<close> and \<open>toLowerCase\<close> map the
  letters \<open>a\<close> to \<open>z\<close> and back, which is what the JavaScript methods do on ASCII
  text; the case mappings of other letters are not part of the model.
\<close>

definition is_ws1 :: "char \<Rightarrow> bool" where
  "is_ws1 a = (a \<in> set [CHR 0x09, CHR 0x0A, CHR 0x0B, CHR 0x0C, CHR 0x0D, CHR 0x20])"

definition is_ws2 :: "char \<Rightarrow> char \<Rightarrow> bool" where
  "is_ws2 a b = (a = CHR 0xC2 \<and> b = CHR 0xA0)"

definition is_ws3 :: "char \<Rightarrow> char \<Rightarrow> char \<Rightarrow> bool" where
  "is_ws3 a b c =
     ((a = CHR 0xE1 \<and> b = CHR 0x9A \<and> c = CHR 0x80)
      \<or> (a = CHR 0xE2 \<and> b = CHR 0x80
          \<and> c \<in> set [CHR 0x80, CHR 0x81, CHR 0x82, CHR 0x83, CHR 0x84, CHR 0x85, CHR 0x86,
                       CHR 0x87, CHR 0x88, CHR 0x89, CHR 0x8A, CHR 0xA8, CHR 0xA9, CHR 0xAF])
      \<or> (a = CHR 0xE2 \<and> b = CHR 0x81 \<and> c = CHR 0x9F)
      \<or> (a = CHR 0xE3 \<and> b = CHR 0x80 \<and> c = CHR 0x80)
      \<or> (a = CHR 0xEF \<and> b = CHR 0xBB \<and> c = CHR 0xBF))"

text \<open>White space removed from the front of a string.\<close>

fun strip_ws :: "string \<Rightarrow> string" where
  "strip_ws (a # b # c # cs) =
     (if is_ws1 a then strip_ws (b # c # cs)
      else if is_ws2 a b then strip_ws (c # cs)
      else if is_ws3 a b c then strip_ws cs
      else a # b # c # cs)"
| "strip_ws [a, b] =
     (if is_ws1 a then strip_ws [b] else if is_ws2 a b then [] else [a, b])"
| "strip_ws [a] = (if is_ws1 a then [] else [a])"
| "strip_ws [] = []"

text \<open>
  The same on a reversed string, whose first byte is the last byte of the text: it
  removes the white space at the end.
\<close>

fun strip_ws_rev :: "string \<Rightarrow> string" where
  "strip_ws_rev (a # b # c # cs) =
     (if is_ws1 a then strip_ws_rev (b # c # cs)
      else if is_ws2 b a then strip_ws_rev (c # cs)
      else if is_ws3 c b a then strip_ws_rev cs
      else a # b # c # cs)"
| "strip_ws_rev [a, b] =
     (if is_ws1 a then strip_ws_rev [b] else if is_ws2 b a then [] else [a, b])"
| "strip_ws_rev [a] = (if is_ws1 a then [] else [a])"
| "strip_ws_rev [] = []"

definition trim :: "string \<Rightarrow> string" where
  "trim s = rev (strip_ws_rev (rev (strip_ws s)))"

definition lower_letters :: string where
  "lower_letters = ''abcdefghijklmnopqrstuvwxyz''"

definition upper_letters :: string where
  "upper_letters = ''ABCDEFGHIJKLMNOPQRSTUVWXYZ''"

definition upper_char :: "char \<Rightarrow> char" where
  "upper_char c =
     (case map_of (zip lower_letters upper_letters) c of Some u \<Rightarrow> u | None \<Rightarrow> c)"

definition lower_char :: "char \<Rightarrow> char" where
  "lower_char c =
     (case map_of (zip upper_letters lower_letters) c of Some l \<Rightarrow> l | None \<Rightarrow> c)"

definition toUpperCase :: "string \<Rightarrow> string" where
  "toUpperCase s = map upper_char s"

definition toLowerCase :: "string \<Rightarrow> string" where
  "toLowerCase s = map lower_char s"

text \<open>\<^verbatim>\<open>xs.join(sep)\<close> on an array of strings.\<close>

fun join :: "string \<Rightarrow> string list \<Rightarrow> string" where
  "join sep [] = []"
| "join sep [x] = x"
| "join sep (x # y # ys) = x @ sep @ join sep (y # ys)"

text \<open>The placeholder \<^verbatim>\<open>"\<emdash>"\<close> (U+2014) of the formatters, as its UTF-8 bytes.\<close>

definition em_dash :: string where
  "em_dash = [CHR 0xE2, CHR 0x80, CHR 0x94]"

subsection \<open>\<^verbatim>\<open>Number(string)\<close>\<close>

text \<open>
  The conversion of a string to a number (ECMAScript \<^verbatim>\<open>StringToNumber\<close>): white
  space is trimmed; the empty string is \<open>0\<close>; then either a signed decimal literal
  (\<^verbatim>\<open>Infinity\<close>, or digits with an optional fraction and an optional exponent, with
  at least one digit before or after the point) or an unsigned literal in base 16, 8 or 2
  (\<^verbatim>\<open>0x\<close>, \<^verbatim>\<open>0o\<close>, \<^verbatim>\<open>0b\<close>); anything else is NaN.
\<close>

definition digit_chars :: string where
  "digit_chars = ''0123456789abcdef''"

definition digit_values :: "nat list" where
  "digit_values = [0, 1, 2, 3, 4, 5, 6, 7, 8, 9, 10, 11, 12, 13, 14, 15]"

definition digit_in :: "nat \<Rightarrow> char \<Rightarrow> nat option" where
  "digit_in b c =
     (case map_of (zip digit_chars digit_values) (lower_char c) of
        None \<Rightarrow> None
      | Some d \<Rightarrow> if d < b then Some d else None)"

fun digits_from :: "nat \<Rightarrow> nat \<Rightarrow> string \<Rightarrow> nat option" where
  "digits_from b acc [] = Some acc"
| "digits_from b acc (c # cs) =
     (case digit_in b c of
        None \<Rightarrow> None
      | Some d \<Rightarrow> digits_from b (acc * b + d) cs)"

text \<open>A possibly empty run of digits, and a run of at least one digit.\<close>

definition digits0 :: "nat \<Rightarrow> string \<Rightarrow> nat option" where
  "digits0 b s = digits_from b 0 s"

definition digits1 :: "nat \<Rightarrow> string \<Rightarrow> nat option" where
  "digits1 b s = (if s = [] then None else digits_from b 0 s)"

text \<open>An optional sign: the factor and the rest of the string.\<close>

fun split_sign :: "string \<Rightarrow> int \<times> string" where
  "split_sign [] = (1, [])"
| "split_sign (c # cs) =
     (if c = CHR ''-'' then (- 1, cs)
      else if c = CHR ''+'' then (1, cs)
      else (1, c # cs))"

definition is_exp_char :: "char \<Rightarrow> bool" where
  "is_exp_char c = (c = CHR ''e'' \<or> c = CHR ''E'')"

text \<open>The exponent part after \<^verbatim>\<open>e\<close>: an optional sign and at least one digit.\<close>

definition parse_exponent :: "string \<Rightarrow> int option" where
  "parse_exponent s =
     (case split_sign s of
        (sg, ds) \<Rightarrow> (case digits1 10 ds of None \<Rightarrow> None | Some n \<Rightarrow> Some (sg * int n)))"

text \<open>The mantissa: its digits as a natural number, and the number of fraction digits.\<close>

definition parse_mantissa :: "string \<Rightarrow> (nat \<times> nat) option" where
  "parse_mantissa m =
     (let ip = takeWhile (\<lambda>c. c \<noteq> CHR ''.'') m;
          rest = dropWhile (\<lambda>c. c \<noteq> CHR ''.'') m
      in case rest of
           [] \<Rightarrow> (case digits1 10 ip of None \<Rightarrow> None | Some n \<Rightarrow> Some (n, 0))
         | dot # fp \<Rightarrow>
             (if ip = [] \<and> fp = [] then None
              else case digits0 10 (ip @ fp) of
                     None \<Rightarrow> None
                   | Some n \<Rightarrow> Some (n, length fp)))"

definition scale10 :: "real \<Rightarrow> int \<Rightarrow> real" where
  "scale10 x e = (if 0 \<le> e then x * 10 ^ nat e else x / 10 ^ nat (- e))"

definition parse_unsigned_decimal :: "string \<Rightarrow> real option" where
  "parse_unsigned_decimal s =
     (let m = takeWhile (\<lambda>c. \<not> is_exp_char c) s;
          rest = dropWhile (\<lambda>c. \<not> is_exp_char c) s
      in case parse_mantissa m of
           None \<Rightarrow> None
         | Some (n, k) \<Rightarrow>
             (case rest of
                [] \<Rightarrow> Some (scale10 (real n) (- int k))
              | e # ex \<Rightarrow>
                  (case parse_exponent ex of
                     None \<Rightarrow> None
                   | Some x \<Rightarrow> Some (scale10 (real n) (x - int k)))))"

definition parse_decimal :: "string \<Rightarrow> jsnum" where
  "parse_decimal s =
     (case split_sign s of
        (sg, u) \<Rightarrow>
          (if u = ''Infinity'' then inf_of_sign sg
           else case parse_unsigned_decimal u of
                  None \<Rightarrow> NaN
                | Some v \<Rightarrow> round_num (real_of_int sg * v)))"

definition parse_radix :: "nat \<Rightarrow> string \<Rightarrow> jsnum" where
  "parse_radix b ds =
     (case digits1 b ds of None \<Rightarrow> NaN | Some n \<Rightarrow> round_num (real n))"

definition parse_numeric :: "string \<Rightarrow> jsnum" where
  "parse_numeric t =
     (case t of
        c0 # c1 # ds \<Rightarrow>
          (if c0 = CHR ''0'' \<and> lower_char c1 = CHR ''x'' then parse_radix 16 ds
           else if c0 = CHR ''0'' \<and> lower_char c1 = CHR ''o'' then parse_radix 8 ds
           else if c0 = CHR ''0'' \<and> lower_char c1 = CHR ''b'' then parse_radix 2 ds
           else parse_decimal t)
      | _ \<Rightarrow> parse_decimal t)"

definition Number :: "string \<Rightarrow> jsnum" where
  "Number s = (let t = trim s in if t = [] then Fin 0 else parse_numeric t)"

section \<open>Data model\<close>

text \<open>
  The types of the page. An optional field (\<^verbatim>\<open>?: T | null\<close>) is an \<^typ>\<open>'a option\<close>,
  with \<open>None\<close> for both \<^verbatim>\<open>null\<close> and \<^verbatim>\<open>undefined\<close>. Record fields are global
  names, so the fields of holdings, funds and input rows carry a prefix where the
  source reuses a name (\<^verbatim>\<open>ticker\<close>, \<^verbatim>\<open>warnings\<close>, ...).
\<close>

record CompanyValuation =
  ticker :: string
  company_name :: "string option"
  currency :: "string option"
  data_date :: "string option"
  price_date :: "string option"
  cash_and_equivalents :: "jsnum option"
  receivables :: "jsnum option"
  inventories :: "jsnum option"
  market_price :: "jsnum option"
  shares_outstanding :: "jsnum option"
  cri_per_share :: "jsnum option"
  cri_to_market_price_ratio :: "jsnum option"
  shares :: "jsnum option"
  warnings :: "string list"

record FundHoldingValuation =
  h_ticker :: "string option"
  h_name :: "string option"
  isin :: "string option"
  cusip :: "string option"
  weight :: "jsnum option"
  company :: "CompanyValuation option"
  h_warnings :: "string list"

record FundValuation =
  f_ticker :: string
  fund_name :: "string option"
  f_currency :: "string option"
  f_market_price :: "jsnum option"
  f_price_date :: "string option"
  aggregate_cri_per_share :: "jsnum option"
  aggregate_cri_to_market_price_ratio :: "jsnum option"
  total_weight_covered :: "jsnum option"
  holdings :: "FundHoldingValuation list"
  f_warnings :: "string list"

record ValuationResponse =
  generated_at :: string
  as_of_date :: string
  portfolio :: "CompanyValuation list"
  funds :: "FundValuation list"

record PortfolioInputRow =
  row_ticker :: string
  row_shares :: string
  row_amount :: string

record FundInputRow =
  frow_ticker :: string
  frow_amount :: string

record ColumnConfig =
  visible :: bool
  width :: int

text \<open>
  The state of the page: one field for each \<^verbatim>\<open>useState\<close> that the valuation requests,
  the ledgers and the tables read or write. The column settings are
  \<^verbatim>\<open>Record<string, ColumnConfig>\<close> objects, modelled as maps from the column id.
\<close>

datatype tab = PortfolioTab | FundsTab

record app_state =
  asOfDate :: string
  portfolioRows :: "PortfolioInputRow list"
  fundRows :: "FundInputRow list"
  portfolioResult :: "CompanyValuation list"
  fundResult :: "FundValuation list"
  portfolioGeneratedAt :: "string option"
  fundGeneratedAt :: "string option"
  portfolioLoading :: bool
  fundLoading :: bool
  error :: "string option"
  activeTab :: tab
  portfolioColumnConfig :: "string \<rightharpoonup> ColumnConfig"
  fundHoldingColumnConfig :: "string \<rightharpoonup> ColumnConfig"

section \<open>Ticker ledgers\<close>

text \<open>
  \<^verbatim>\<open>fundAmountMap\<close> and \<^verbatim>\<open>portfolioAmountMap\<close> run the same loop body over their own
  rows; \<open>ledger_step\<close> is that body, with the \<^verbatim>\<open>Map<string, number>\<close> as a map:
  \<^verbatim>\<open>
    const ticker = row.ticker.trim().toUpperCase();
    if (!ticker) continue;
    const amountValue = Number(row.amount);
    if (!Number.isFinite(amountValue)) continue;
    map.set(ticker, (map.get(ticker) ?? 0) + amountValue);
  \<close>
\<close>

type_synonym ledger = "string \<rightharpoonup> jsnum"

definition ledger_key :: "string \<Rightarrow> string" where
  "ledger_key t = toUpperCase (trim t)"

definition ledger_step :: "string \<Rightarrow> string \<Rightarrow> ledger \<Rightarrow> ledger" where
  "ledger_step row_tk row_am m =
     (let tk = ledger_key row_tk in
      if tk = [] then m
      else let amountValue = Number row_am in
        if \<not> isFinite amountValue then m
        else m(tk \<mapsto> num_add (case m tk of None \<Rightarrow> Fin 0 | Some v \<Rightarrow> v) amountValue))"

definition fundAmountMap :: "FundInputRow list \<Rightarrow> ledger" where
  "fundAmountMap rows =
     foldl (\<lambda>m row. ledger_step (frow_ticker row) (frow_amount row) m) Map.empty rows"

definition portfolioAmountMap :: "PortfolioInputRow list \<Rightarrow> ledger" where
  "portfolioAmountMap rows =
     foldl (\<lambda>m row. ledger_step (row_ticker row) (row_amount row) m) Map.empty rows"

text \<open>
  The ledger as the specification words it: the amounts entered for a ticker are the
  finite values of the rows whose trimmed, uppercased ticker is that ticker, in row
  order; a non-empty ticker with at least one such amount maps to their sum (added up
  from \<open>0\<close> in row order), every other ticker is absent.
\<close>

definition entered_amounts :: "(string \<times> string) list \<Rightarrow> string \<Rightarrow> jsnum list" where
  "entered_amounts rows t =
     map (\<lambda>r. Number (snd r))
       (filter (\<lambda>r. ledger_key (fst r) = t \<and> isFinite (Number (snd r))) rows)"

definition summed_ledger :: "(string \<times> string) list \<Rightarrow> ledger" where
  "summed_ledger rows t =
     (if t = [] \<or> entered_amounts rows t = [] then None
      else Some (foldl num_add (Fin 0) (entered_amounts rows t)))"

definition portfolio_entries :: "PortfolioInputRow list \<Rightarrow> (string \<times> string) list" where
  "portfolio_entries rows = map (\<lambda>r. (row_ticker r, row_amount r)) rows"

definition fund_entries :: "FundInputRow list \<Rightarrow> (string \<times> string) list" where
  "fund_entries rows = map (\<lambda>r. (frow_ticker r, frow_amount r)) rows"

section \<open>Zakat calculator\<close>

definition ZAKAT_RATE :: jsnum where
  "ZAKAT_RATE = Fin 0.025"

text \<open>
  \<^verbatim>\<open>computePortfolioZakatableAmount\<close> closes over \<^verbatim>\<open>portfolioAmountMap\<close>; the model
  takes the ledger as its first argument. \<^verbatim>\<open>typeof ratio === "number"\<close> holds for every
  number, NaN and the infinities included, and fails for \<^verbatim>\<open>null\<close> and
  \<^verbatim>\<open>undefined\<close>.
\<close>

definition computePortfolioZakatableAmount :: "ledger \<Rightarrow> CompanyValuation \<Rightarrow> jsnum option" where
  "computePortfolioZakatableAmount amountMap c =
     (if ticker c = [] then None
      else
        (case amountMap (toUpperCase (ticker c)) of
           None \<Rightarrow> None
         | Some investedAmount \<Rightarrow>
             (case cri_to_market_price_ratio c of
                None \<Rightarrow> None
              | Some ratio \<Rightarrow> Some (num_mul investedAmount ratio))))"

definition computePortfolioZakatDue :: "ledger \<Rightarrow> CompanyValuation \<Rightarrow> jsnum option" where
  "computePortfolioZakatDue amountMap c =
     (case computePortfolioZakatableAmount amountMap c of
        None \<Rightarrow> None
      | Some zakatableAmount \<Rightarrow> Some (num_mul zakatableAmount ZAKAT_RATE))"

section \<open>Fund aggregator\<close>

text \<open>
  The body of \<^verbatim>\<open>fundResult.map((fund) => ...)\<close> computes three values before it renders a
  fund; they are functions of the fund and of \<^verbatim>\<open>fundAmountMap\<close> here.
  \<^verbatim>\<open>
    const extrapolatedCriRatio =
      aggregateCriRatio !== null && totalWeightCovered !== null && totalWeightCovered > 0
        ? aggregateCriRatio / totalWeightCovered : null;
    const investedAmount = fundAmountMap.get(fund.ticker.toUpperCase());
    const zakatableAmount =
      investedAmount !== undefined && extrapolatedCriRatio !== null
        ? investedAmount * extrapolatedCriRatio : null;
    const zakatDue = zakatableAmount !== null ? zakatableAmount * ZAKAT_RATE : null;
  \<close>
\<close>

definition extrapolatedCriRatio :: "FundValuation \<Rightarrow> jsnum option" where
  "extrapolatedCriRatio fund =
     (case aggregate_cri_to_market_price_ratio fund of
        None \<Rightarrow> None
      | Some aggregateCriRatio \<Rightarrow>
          (case total_weight_covered fund of
             None \<Rightarrow> None
           | Some totalWeightCovered \<Rightarrow>
               if num_gt totalWeightCovered (Fin 0)
               then Some (num_div aggregateCriRatio totalWeightCovered)
               else None))"

definition zakatableAmount :: "ledger \<Rightarrow> FundValuation \<Rightarrow> jsnum option" where
  "zakatableAmount amountMap fund =
     (case amountMap (toUpperCase (f_ticker fund)) of
        None \<Rightarrow> None
      | Some investedAmount \<Rightarrow>
          (case extrapolatedCriRatio fund of
             None \<Rightarrow> None
           | Some ratio \<Rightarrow> Some (num_mul investedAmount ratio)))"

definition zakatDue :: "ledger \<Rightarrow> FundValuation \<Rightarrow> jsnum option" where
  "zakatDue amountMap fund =
     (case zakatableAmount amountMap fund of
        None \<Rightarrow> None
      | Some z \<Rightarrow> Some (num_mul z ZAKAT_RATE))"

subsection \<open>The order of the holdings rows\<close>

text \<open>
  \<^verbatim>\<open>Array.prototype.sort\<close> is stable; it places \<open>a\<close> after \<open>b\<close> when the comparator
  is positive on \<open>(a, b)\<close> and treats a NaN result as \<open>0\<close>. For a consistent comparator
  the result is the one a stable insertion sort gives, which is the model. (For an
  inconsistent comparator ECMAScript leaves the order to the implementation.)
\<close>

fun insert_by :: "('a \<Rightarrow> 'a \<Rightarrow> jsnum) \<Rightarrow> 'a \<Rightarrow> 'a list \<Rightarrow> 'a list" where
  "insert_by cmp x [] = [x]"
| "insert_by cmp x (y # ys) =
     (if num_gt (cmp x y) (Fin 0) then y # insert_by cmp x ys else x # y # ys)"

definition js_sort :: "('a \<Rightarrow> 'a \<Rightarrow> jsnum) \<Rightarrow> 'a list \<Rightarrow> 'a list" where
  "js_sort cmp xs = foldr (insert_by cmp) xs []"

text \<open>
  The comparator of the holdings table:
  \<^verbatim>\<open>typeof a.weight === "number" ? a.weight : Number.NEGATIVE_INFINITY\<close>, then
  \<^verbatim>\<open>weightB - weightA\<close>.
\<close>

definition weight_or_neg_inf :: "FundHoldingValuation \<Rightarrow> jsnum" where
  "weight_or_neg_inf h = (case weight h of Some w \<Rightarrow> w | None \<Rightarrow> NInf)"

definition weightComparator :: "FundHoldingValuation \<Rightarrow> FundHoldingValuation \<Rightarrow> jsnum" where
  "weightComparator a b = num_sub (weight_or_neg_inf b) (weight_or_neg_inf a)"

definition sortedHoldings :: "FundValuation \<Rightarrow> FundHoldingValuation list" where
  "sortedHoldings fund = js_sort weightComparator (holdings fund)"

text \<open>
  \<^verbatim>\<open>sort\<close> reorders the array it is called on, and the page calls it on a copy:
  \<^verbatim>\<open>fund.holdings.slice().sort(...)\<close>. To say what happens to \<^verbatim>\<open>fund.holdings\<close>
  itself, arrays live in a store (a list of arrays, an address is an index):
  \<open>array_slice\<close> allocates a copy, \<open>array_sort\<close> overwrites the array at its address.
  Both return the address of their result and the new store, and \<open>None\<close> for an
  address that is not in the store.
\<close>

type_synonym 'a arrays = "'a list list"

definition array_slice :: "nat \<Rightarrow> 'a arrays \<Rightarrow> (nat \<times> 'a arrays) option" where
  "array_slice a s = (if a < length s then Some (length s, s @ [s ! a]) else None)"

definition array_sort ::
  "('a \<Rightarrow> 'a \<Rightarrow> jsnum) \<Rightarrow> nat \<Rightarrow> 'a arrays \<Rightarrow> (nat \<times> 'a arrays) option" where
  "array_sort cmp a s = (if a < length s then Some (a, s[a := js_sort cmp (s ! a)]) else None)"

definition slice_then_sort ::
  "nat \<Rightarrow> FundHoldingValuation arrays \<Rightarrow> (nat \<times> FundHoldingValuation arrays) option" where
  "slice_then_sort a s =
     (case array_slice a s of
        None \<Rightarrow> None
      | Some (b, s1) \<Rightarrow> array_sort weightComparator b s1)"

section \<open>CSV serialization\<close>

text \<open>
  \<^verbatim>\<open>
  const sanitizeCsvValue = (value: unknown) => {
    if (value === null || value === undefined) return "";
    const stringValue = String(value);
    const escaped = stringValue.replace(/"/g, '""');
    return /[",\n]/.test(escaped) ? `"${escaped}"` : escaped;
  };
  \<close>
  Every caller passes a string; \<open>None\<close> stands for \<^verbatim>\<open>null\<close> and \<^verbatim>\<open>undefined\<close>.
\<close>

definition dquote :: char where
  "dquote = CHR 0x22"

definition comma :: char where
  "comma = CHR 0x2C"

definition newline :: char where
  "newline = CHR 0x0A"

definition double_quotes :: "string \<Rightarrow> string" where
  "double_quotes s = concat (map (\<lambda>c. if c = dquote then [dquote, dquote] else [c]) s)"

definition needs_quoting :: "string \<Rightarrow> bool" where
  "needs_quoting s = list_ex (\<lambda>c. c = dquote \<or> c = comma \<or> c = newline) s"

definition sanitizeCsvValue :: "string option \<Rightarrow> string" where
  "sanitizeCsvValue v =
     (case v of
        None \<Rightarrow> []
      | Some stringValue \<Rightarrow>
          (let escaped = double_quotes stringValue
           in if needs_quoting escaped then [dquote] @ escaped @ [dquote] else escaped))"

definition createCsvContent :: "string list \<Rightarrow> string list list \<Rightarrow> string" where
  "createCsvContent headers rows =
     join [newline] (map (\<lambda>row. join [comma] (map (\<lambda>v. sanitizeCsvValue (Some v)) row)) (headers # rows))"

section \<open>Formatting\<close>

text \<open>
  The formatters guard against unknown values and then call the JavaScript library:
  \<^verbatim>\<open>Intl.NumberFormat\<close> (locale dependent), \<^verbatim>\<open>Number.prototype.toFixed\<close>, and
  \<^verbatim>\<open>Date\<close>. These library functions are parameters of the model, gathered in a
  record: \<open>intl_format min max v\<close> formats \<open>v\<close> with the given fraction digits,
  \<open>to_fixed d v\<close> is \<^verbatim>\<open>v.toFixed(d)\<close>, \<open>date_iso s\<close> is the ISO form of
  \<^verbatim>\<open>new Date(s)\<close> when that date is valid, \<open>now_iso\<close> the ISO form of the current time.
\<close>

record host =
  intl_format :: "nat \<Rightarrow> nat \<Rightarrow> jsnum \<Rightarrow> string"
  to_fixed :: "nat \<Rightarrow> jsnum \<Rightarrow> string"
  date_iso :: "string \<Rightarrow> string option"
  now_iso :: string

record NumberFormatOptions =
  minimumFractionDigits :: "nat option"
  maximumFractionDigits :: "nat option"

definition no_options :: NumberFormatOptions where
  "no_options = \<lparr>minimumFractionDigits = None, maximumFractionDigits = None\<rparr>"

definition fraction_digits :: "nat \<Rightarrow> nat \<Rightarrow> NumberFormatOptions" where
  "fraction_digits lo hi = \<lparr>minimumFractionDigits = Some lo, maximumFractionDigits = Some hi\<rparr>"

definition max_fraction_digits :: "nat \<Rightarrow> NumberFormatOptions" where
  "max_fraction_digits hi = \<lparr>minimumFractionDigits = None, maximumFractionDigits = Some hi\<rparr>"

text \<open>
  \<^verbatim>\<open>{ maximumFractionDigits: 2, minimumFractionDigits: 0, ...options }\<close>: a digit
  count given in \<open>options\<close> replaces the default.
\<close>

definition formatNumber :: "host \<Rightarrow> jsnum option \<Rightarrow> NumberFormatOptions \<Rightarrow> string" where
  "formatNumber h v options =
     (case v of
        None \<Rightarrow> em_dash
      | Some x \<Rightarrow>
          if isNaN x then em_dash
          else intl_format h
                 (case minimumFractionDigits options of None \<Rightarrow> 0 | Some d \<Rightarrow> d)
                 (case maximumFractionDigits options of None \<Rightarrow> 2 | Some d \<Rightarrow> d)
                 x)"

definition formatRatio :: "host \<Rightarrow> jsnum option \<Rightarrow> string" where
  "formatRatio h v =
     (case v of
        None \<Rightarrow> em_dash
      | Some x \<Rightarrow>
          if isNaN x then em_dash
          else to_fixed h 2 (num_mul x (Fin 100)) @ ''%'')"

definition replace_colons :: "string \<Rightarrow> string" where
  "replace_colons s = map (\<lambda>c. if c = CHR '':'' then CHR ''-'' else c) s"

definition buildFilenameTimestamp :: "host \<Rightarrow> string option \<Rightarrow> string" where
  "buildFilenameTimestamp h v =
     replace_colons
       (case v of
          None \<Rightarrow> now_iso h
        | Some s \<Rightarrow>
            if s = [] then now_iso h
            else (case date_iso h s of None \<Rightarrow> now_iso h | Some stamp \<Rightarrow> stamp))"

section \<open>Column registry\<close>

text \<open>
  \<^verbatim>\<open>PortfolioColumn\<close> and \<^verbatim>\<open>FundHoldingColumn\<close> have the same fields and differ in the
  entity their functions take, so they are one record with the entity as a type
  parameter. Every \<^verbatim>\<open>renderCell\<close> of the page returns a string. The fields that only
  style or annotate a cell (class names, tool tips) are left out. \<open>col_id\<close> is the
  field \<^verbatim>\<open>id\<close>.
\<close>

record 'e Column =
  col_id :: string
  label :: string
  defaultWidth :: int
  renderCell :: "'e \<Rightarrow> string"
  getExportValue :: "'e \<Rightarrow> string"

type_synonym PortfolioColumn = "CompanyValuation Column"
type_synonym FundHoldingColumn = "FundHoldingValuation Column"

text \<open>\<^verbatim>\<open>value ?? "-"\<close> on an optional string.\<close>

definition or_else :: "string option \<Rightarrow> string \<Rightarrow> string" where
  "or_else v d = (case v of None \<Rightarrow> d | Some s \<Rightarrow> s)"

text \<open>
  \<^verbatim>\<open>portfolioColumns\<close>, memoised on \<^verbatim>\<open>portfolioAmountMap\<close>, which the two zakat columns
  read. The cell and the export function of each column are transcribed separately, as
  the source writes them. \<^verbatim>\<open>company.ticker ?? "-"\<close> is the ticker, which the type makes
  a string.
\<close>

definition portfolioColumns :: "host \<Rightarrow> ledger \<Rightarrow> PortfolioColumn list" where
  "portfolioColumns h amountMap =
    [ \<lparr>col_id = ''ticker'', label = ''Ticker'', defaultWidth = 140,
        renderCell = (\<lambda>c. ticker c),
        getExportValue = (\<lambda>c. ticker c)\<rparr>,
      \<lparr>col_id = ''company'', label = ''Company'', defaultWidth = 220,
        renderCell = (\<lambda>c. or_else (company_name c) ''-''),
        getExportValue = (\<lambda>c. or_else (company_name c) ''-'')\<rparr>,
      \<lparr>col_id = ''currency'', label = ''Currency'', defaultWidth = 120,
        renderCell = (\<lambda>c. or_else (currency c) ''-''),
        getExportValue = (\<lambda>c. or_else (currency c) ''-'')\<rparr>,
      \<lparr>col_id = ''cash'', label = ''Cash'', defaultWidth = 140,
        renderCell = (\<lambda>c. formatNumber h (cash_and_equivalents c) no_options),
        getExportValue = (\<lambda>c. formatNumber h (cash_and_equivalents c) no_options)\<rparr>,
      \<lparr>col_id = ''receivables'', label = ''Receivables'', defaultWidth = 140,
        renderCell = (\<lambda>c. formatNumber h (receivables c) no_options),
        getExportValue = (\<lambda>c. formatNumber h (receivables c) no_options)\<rparr>,
      \<lparr>col_id = ''inventories'', label = ''Inventories'', defaultWidth = 140,
        renderCell = (\<lambda>c. formatNumber h (inventories c) no_options),
        getExportValue = (\<lambda>c. formatNumber h (inventories c) no_options)\<rparr>,
      \<lparr>col_id = ''market_price'', label = ''Market Price'', defaultWidth = 160,
        renderCell = (\<lambda>c. formatNumber h (market_price c) (fraction_digits 2 4)),
        getExportValue = (\<lambda>c. formatNumber h (market_price c) (fraction_digits 2 4))\<rparr>,
      \<lparr>col_id = ''shares'', label = ''Shares Used'', defaultWidth = 150,
        renderCell = (\<lambda>c. formatNumber h (shares_outstanding c) (max_fraction_digits 0)),
        getExportValue = (\<lambda>c. formatNumber h (shares_outstanding c) (max_fraction_digits 0))\<rparr>,
      \<lparr>col_id = ''cri_per_share'', label = ''CRI per Share'', defaultWidth = 160,
        renderCell = (\<lambda>c. formatNumber h (cri_per_share c) (fraction_digits 4 6)),
        getExportValue = (\<lambda>c. formatNumber h (cri_per_share c) (fraction_digits 4 6))\<rparr>,
      \<lparr>col_id = ''cri_ratio'', label = ''CRI / Price'', defaultWidth = 140,
        renderCell = (\<lambda>c. formatRatio h (cri_to_market_price_ratio c)),
        getExportValue = (\<lambda>c. formatRatio h (cri_to_market_price_ratio c))\<rparr>,
      \<lparr>col_id = ''zakatable_amount'', label = ''Zakatable Amount'', defaultWidth = 180,
        renderCell =
          (\<lambda>c. formatNumber h (computePortfolioZakatableAmount amountMap c) (fraction_digits 2 2)),
        getExportValue =
          (\<lambda>c. formatNumber h (computePortfolioZakatableAmount amountMap c) (fraction_digits 2 2))\<rparr>,
      \<lparr>col_id = ''zakat_due'', label = ''Zakat Due'', defaultWidth = 160,
        renderCell =
          (\<lambda>c. formatNumber h (computePortfolioZakatDue amountMap c) (fraction_digits 2 2)),
        getExportValue =
          (\<lambda>c. formatNumber h (computePortfolioZakatDue amountMap c) (fraction_digits 2 2))\<rparr> ]"

text \<open>
  \<^verbatim>\<open>getFundHoldingLabel\<close>: \<^verbatim>\<open>ticker && name && ...\<close> needs both strings present and
  non-empty; \<^verbatim>\<open>ticker ?? name ?? "N/A"\<close> takes the first that is present.
\<close>

definition getFundHoldingLabel :: "FundHoldingValuation \<Rightarrow> string" where
  "getFundHoldingLabel holding =
     (case (h_ticker holding, h_name holding) of
        (Some t, Some n) \<Rightarrow>
          if t \<noteq> [] \<and> n \<noteq> [] \<and> toLowerCase n \<noteq> toLowerCase t
          then t @ '' ('' @ n @ '')''
          else t
      | (Some t, None) \<Rightarrow> t
      | (None, Some n) \<Rightarrow> n
      | (None, None) \<Rightarrow> ''N/A'')"

text \<open>\<^verbatim>\<open>holding.company?.field ?? null\<close>.\<close>

definition company_field :: "(CompanyValuation \<Rightarrow> 'a option) \<Rightarrow> FundHoldingValuation \<Rightarrow> 'a option" where
  "company_field f holding = (case company holding of None \<Rightarrow> None | Some c \<Rightarrow> f c)"

definition fundHoldingColumns :: "host \<Rightarrow> FundHoldingColumn list" where
  "fundHoldingColumns h =
    [ \<lparr>col_id = ''holding'', label = ''Holding'', defaultWidth = 220,
        renderCell = (\<lambda>x. getFundHoldingLabel x),
        getExportValue = (\<lambda>x. getFundHoldingLabel x)\<rparr>,
      \<lparr>col_id = ''weight'', label = ''Weight'', defaultWidth = 120,
        renderCell =
          (\<lambda>x. case weight x of None \<Rightarrow> ''N/A'' | Some w \<Rightarrow> formatRatio h (Some w)),
        getExportValue =
          (\<lambda>x. case weight x of None \<Rightarrow> ''N/A'' | Some w \<Rightarrow> formatRatio h (Some w))\<rparr>,
      \<lparr>col_id = ''cash'', label = ''Cash'', defaultWidth = 140,
        renderCell = (\<lambda>x. formatNumber h (company_field cash_and_equivalents x) no_options),
        getExportValue = (\<lambda>x. formatNumber h (company_field cash_and_equivalents x) no_options)\<rparr>,
      \<lparr>col_id = ''receivables'', label = ''Receivables'', defaultWidth = 150,
        renderCell = (\<lambda>x. formatNumber h (company_field receivables x) no_options),
        getExportValue = (\<lambda>x. formatNumber h (company_field receivables x) no_options)\<rparr>,
      \<lparr>col_id = ''inventories'', label = ''Inventories'', defaultWidth = 150,
        renderCell = (\<lambda>x. formatNumber h (company_field inventories x) no_options),
        getExportValue = (\<lambda>x. formatNumber h (company_field inventories x) no_options)\<rparr>,
      \<lparr>col_id = ''market_price'', label = ''Market Price'', defaultWidth = 150,
        renderCell = (\<lambda>x. formatNumber h (company_field market_price x) no_options),
        getExportValue = (\<lambda>x. formatNumber h (company_field market_price x) no_options)\<rparr>,
      \<lparr>col_id = ''shares'', label = ''Shares Used'', defaultWidth = 150,
        renderCell =
          (\<lambda>x. formatNumber h (company_field shares_outstanding x) (max_fraction_digits 0)),
        getExportValue =
          (\<lambda>x. formatNumber h (company_field shares_outstanding x) (max_fraction_digits 0))\<rparr>,
      \<lparr>col_id = ''cri_per_share'', label = ''CRI per Share'', defaultWidth = 160,
        renderCell =
          (\<lambda>x. formatNumber h (company_field cri_per_share x) (fraction_digits 4 6)),
        getExportValue =
          (\<lambda>x. formatNumber h (company_field cri_per_share x) (fraction_digits 4 6))\<rparr>,
      \<lparr>col_id = ''cri_ratio'', label = ''CRI / Price'', defaultWidth = 140,
        renderCell =
          (\<lambda>x. case company_field cri_to_market_price_ratio x of
                  None \<Rightarrow> ''N/A''
                | Some ratio \<Rightarrow> formatRatio h (Some ratio)),
        getExportValue =
          (\<lambda>x. case company_field cri_to_market_price_ratio x of
                  None \<Rightarrow> ''N/A''
                | Some ratio \<Rightarrow> formatRatio h (Some ratio))\<rparr> ]"

subsection \<open>Visibility and width settings\<close>

type_synonym column_config = "string \<rightharpoonup> ColumnConfig"

text \<open>
  The initial settings, \<^verbatim>\<open>Object.fromEntries(columns.map(...))\<close>, and the effect that
  gives every column without settings its default.
\<close>

definition default_config :: "'e Column \<Rightarrow> ColumnConfig" where
  "default_config column = \<lparr>visible = True, width = defaultWidth column\<rparr>"

definition initialColumnConfig :: "'e Column list \<Rightarrow> column_config" where
  "initialColumnConfig columns =
     foldl (\<lambda>m column. m(col_id column \<mapsto> default_config column)) Map.empty columns"

definition healColumnConfig :: "'e Column list \<Rightarrow> column_config \<Rightarrow> column_config" where
  "healColumnConfig columns prev =
     foldl (\<lambda>next column.
              case next (col_id column) of
                None \<Rightarrow> next(col_id column \<mapsto> default_config column)
              | Some k \<Rightarrow> next)
       prev columns"

text \<open>
  The body shared by \<^verbatim>\<open>handlePortfolioColumnVisibilityChange\<close> and
  \<^verbatim>\<open>handleFundColumnVisibilityChange\<close>:
  \<^verbatim>\<open>
    const column = columns.find((col) => col.id === columnId);
    const fallbackWidth = column?.defaultWidth ?? 160;
    setConfig((prev) => ({ ...prev,
      [columnId]: { visible, width: prev[columnId]?.width ?? fallbackWidth } }));
  \<close>
  and the body shared by the two width handlers.
\<close>

definition columnVisibilityChange ::
  "'e Column list \<Rightarrow> string \<Rightarrow> bool \<Rightarrow> column_config \<Rightarrow> column_config" where
  "columnVisibilityChange columns columnId v prev =
     (let fallbackWidth =
            (case find (\<lambda>col. col_id col = columnId) columns of
               None \<Rightarrow> 160
             | Some column \<Rightarrow> defaultWidth column)
      in prev(columnId \<mapsto>
           \<lparr>visible = v,
            width = (case prev columnId of None \<Rightarrow> fallbackWidth | Some k \<Rightarrow> width k)\<rparr>))"

definition columnWidthChange :: "string \<Rightarrow> int \<Rightarrow> column_config \<Rightarrow> column_config" where
  "columnWidthChange columnId w prev =
     prev(columnId \<mapsto>
       \<lparr>visible = (case prev columnId of None \<Rightarrow> True | Some k \<Rightarrow> visible k),
        width = w\<rparr>)"

text \<open>\<^verbatim>\<open>config[column.id]?.visible ?? true\<close> and the filter that uses it.\<close>

definition is_visible :: "column_config \<Rightarrow> 'e Column \<Rightarrow> bool" where
  "is_visible config column =
     (case config (col_id column) of None \<Rightarrow> True | Some k \<Rightarrow> visible k)"

definition visibleColumns :: "'e Column list \<Rightarrow> column_config \<Rightarrow> 'e Column list" where
  "visibleColumns columns config = filter (is_visible config) columns"

definition handlePortfolioColumnVisibilityChange ::
  "host \<Rightarrow> string \<Rightarrow> bool \<Rightarrow> app_state \<Rightarrow> app_state" where
  "handlePortfolioColumnVisibilityChange h columnId v st =
     st\<lparr>portfolioColumnConfig :=
          columnVisibilityChange (portfolioColumns h (portfolioAmountMap (portfolioRows st)))
            columnId v (portfolioColumnConfig st)\<rparr>"

definition handleFundColumnVisibilityChange ::
  "host \<Rightarrow> string \<Rightarrow> bool \<Rightarrow> app_state \<Rightarrow> app_state" where
  "handleFundColumnVisibilityChange h columnId v st =
     st\<lparr>fundHoldingColumnConfig :=
          columnVisibilityChange (fundHoldingColumns h) columnId v (fundHoldingColumnConfig st)\<rparr>"

definition handlePortfolioColumnWidthChange :: "string \<Rightarrow> int \<Rightarrow> app_state \<Rightarrow> app_state" where
  "handlePortfolioColumnWidthChange columnId w st =
     st\<lparr>portfolioColumnConfig := columnWidthChange columnId w (portfolioColumnConfig st)\<rparr>"

definition handleFundColumnWidthChange :: "string \<Rightarrow> int \<Rightarrow> app_state \<Rightarrow> app_state" where
  "handleFundColumnWidthChange columnId w st =
     st\<lparr>fundHoldingColumnConfig := columnWidthChange columnId w (fundHoldingColumnConfig st)\<rparr>"

definition visiblePortfolioColumns :: "host \<Rightarrow> app_state \<Rightarrow> PortfolioColumn list" where
  "visiblePortfolioColumns h st =
     visibleColumns (portfolioColumns h (portfolioAmountMap (portfolioRows st)))
       (portfolioColumnConfig st)"

definition visibleFundHoldingColumns :: "host \<Rightarrow> app_state \<Rightarrow> FundHoldingColumn list" where
  "visibleFundHoldingColumns h st =
     visibleColumns (fundHoldingColumns h) (fundHoldingColumnConfig st)"

section \<open>Tables and CSV export\<close>

text \<open>
  What the page puts in the table area for the portfolio and for one fund: a table
  (the header labels and one list of cells per row), or a notice when no column is
  visible (\<^verbatim>\<open>visiblePortfolioColumns.length > 0 ? <table> : <div>\<close>).
\<close>

datatype table_view = Table "string list" "string list list" | Notice string

definition renderPortfolioTable :: "host \<Rightarrow> app_state \<Rightarrow> table_view" where
  "renderPortfolioTable h st =
     (let columns = visiblePortfolioColumns h st in
      if 0 < length columns
      then Table (map label columns)
             (map (\<lambda>c. map (\<lambda>column. renderCell column c) columns) (portfolioResult st))
      else Notice ''Select at least one column to display results.'')"

definition renderFundHoldingsTable :: "host \<Rightarrow> app_state \<Rightarrow> FundValuation \<Rightarrow> table_view" where
  "renderFundHoldingsTable h st fund =
     (let columns = visibleFundHoldingColumns h st in
      if 0 < length columns
      then Table (map label columns)
             (map (\<lambda>x. map (\<lambda>column. renderCell column x) columns) (sortedHoldings fund))
      else Notice ''Select at least one column to display holdings.'')"

text \<open>
  A download handler returns the file it hands to \<^verbatim>\<open>triggerCsvDownload\<close> (name and
  content), or \<open>None\<close> when it returns early without a download.
\<close>

definition portfolioExportColumns :: "host \<Rightarrow> app_state \<Rightarrow> PortfolioColumn list" where
  "portfolioExportColumns h st =
     filter (is_visible (portfolioColumnConfig st))
       (portfolioColumns h (portfolioAmountMap (portfolioRows st)))"

definition portfolioExportHeaders :: "host \<Rightarrow> app_state \<Rightarrow> string list" where
  "portfolioExportHeaders h st = map label (portfolioExportColumns h st) @ [''Warnings'']"

definition portfolioExportRows :: "host \<Rightarrow> app_state \<Rightarrow> string list list" where
  "portfolioExportRows h st =
     map (\<lambda>c. map (\<lambda>column. getExportValue column c) (portfolioExportColumns h st)
               @ [join '' '' (warnings c)])
       (portfolioResult st)"

definition handleDownloadPortfolio :: "host \<Rightarrow> app_state \<Rightarrow> (string \<times> string) option" where
  "handleDownloadPortfolio h st =
     (if length (portfolioResult st) = 0 then None
      else
        let timestamp = buildFilenameTimestamp h (portfolioGeneratedAt st);
            csvContent = createCsvContent (portfolioExportHeaders h st) (portfolioExportRows h st)
        in Some (''portfolio-valuations-'' @ timestamp @ ''.csv'', csvContent))"

definition fundExportHeaders :: "string list" where
  "fundExportHeaders =
     [''Holding'', ''Ticker'', ''Name'', ''ISIN'', ''CUSIP'', ''Weight'', ''Cash'',
      ''Receivables'', ''Inventories'', ''Market Price'', ''Shares'', ''CRI per Share'',
      ''CRI / Price'', ''Holding Warnings'', ''Company Warnings'']"

definition fundExportRow :: "host \<Rightarrow> FundHoldingValuation \<Rightarrow> string list" where
  "fundExportRow h holding =
     (let label =
            (case (h_ticker holding, h_name holding) of
               (Some t, Some n) \<Rightarrow>
                 if t \<noteq> [] \<and> n \<noteq> [] \<and> toLowerCase n \<noteq> toLowerCase t
                 then t @ '' ('' @ n @ '')''
                 else t
             | (Some t, None) \<Rightarrow> t
             | (None, Some n) \<Rightarrow> n
             | (None, None) \<Rightarrow> ''N/A'');
          criRatio = company_field cri_to_market_price_ratio holding
      in [ label,
           or_else (h_ticker holding) em_dash,
           or_else (h_name holding) em_dash,
           or_else (isin holding) em_dash,
           or_else (cusip holding) em_dash,
           (case weight holding of None \<Rightarrow> ''N/A'' | Some w \<Rightarrow> formatRatio h (Some w)),
           formatNumber h (company_field cash_and_equivalents holding) no_options,
           formatNumber h (company_field receivables holding) no_options,
           formatNumber h (company_field inventories holding) no_options,
           formatNumber h (company_field market_price holding) no_options,
           formatNumber h (company_field shares_outstanding holding) (max_fraction_digits 0),
           formatNumber h (company_field cri_per_share holding) (fraction_digits 4 6),
           (case criRatio of None \<Rightarrow> ''N/A'' | Some r \<Rightarrow> formatRatio h (Some r)),
           join '' '' (h_warnings holding),
           (case company holding of None \<Rightarrow> [] | Some c \<Rightarrow> join '' '' (warnings c)) ])"

text \<open>
  \<^verbatim>\<open>handleDownloadFundHoldings\<close> reads \<^verbatim>\<open>fundGeneratedAt\<close> from the state and nothing
  else: neither \<^verbatim>\<open>fundHoldingColumns\<close> nor \<^verbatim>\<open>fundHoldingColumnConfig\<close> occurs in it.
  \<^verbatim>\<open>fund.ticker || "fund"\<close> replaces an empty ticker.
\<close>

definition handleDownloadFundHoldings ::
  "host \<Rightarrow> app_state \<Rightarrow> FundValuation \<Rightarrow> (string \<times> string) option" where
  "handleDownloadFundHoldings h st fund =
     (if length (holdings fund) = 0 then None
      else
        let rows = map (fundExportRow h) (holdings fund);
            timestamp = buildFilenameTimestamp h (fundGeneratedAt st);
            filename =
              toLowerCase ((if f_ticker fund = [] then ''fund'' else f_ticker fund)
                           @ ''-holdings-'' @ timestamp @ ''.csv'');
            csvContent = createCsvContent fundExportHeaders rows
        in Some (filename, csvContent))"

section \<open>Valuation requests\<close>

text \<open>
  \<^verbatim>\<open>handlePortfolioSubmit\<close> and \<^verbatim>\<open>handleFundFetch\<close> are asynchronous: each runs up to
  its \<^verbatim>\<open>await fetch(...)\<close>, and resumes when the request has settled. JavaScript runs
  one handler at a time, so each handler is two state transitions: \<open>_start\<close> (which
  also says whether a request is sent) and \<open>_settle\<close>, taking the outcome of the
  request. Other events may come between the two.
\<close>

record PortfolioPayloadItem =
  pp_ticker :: string
  pp_shares :: "jsnum option"
  pp_amount :: "jsnum option"

record FundPayloadItem =
  fp_ticker :: string
  fp_amount :: "jsnum option"

record ValuationRequest =
  req_as_of_date :: string
  req_portfolio :: "PortfolioPayloadItem list"
  req_funds :: "FundPayloadItem list"

text \<open>
  How a request ends: a response with an ok status and a body that parses; a response
  with another status and its body text; an \<^verbatim>\<open>Error\<close> thrown by \<^verbatim>\<open>fetch\<close> or by the
  parsing of the body, with its message; or a thrown value that is not an \<^verbatim>\<open>Error\<close>.
\<close>

datatype fetch_outcome =
    Fulfilled ValuationResponse
  | NotOk string
  | ThrownError string
  | ThrownOther

definition optional_number :: "string \<Rightarrow> jsnum option" where
  "optional_number s = (if s = [] then None else Some (Number s))"

definition portfolioPayload :: "PortfolioInputRow list \<Rightarrow> PortfolioPayloadItem list" where
  "portfolioPayload rows =
     map (\<lambda>row. \<lparr>pp_ticker = trim (row_ticker row),
                 pp_shares = optional_number (row_shares row),
                 pp_amount = optional_number (row_amount row)\<rparr>)
       (filter (\<lambda>row. trim (row_ticker row) \<noteq> []) rows)"

definition fundPayload :: "FundInputRow list \<Rightarrow> FundPayloadItem list" where
  "fundPayload rows =
     map (\<lambda>row. \<lparr>fp_ticker = trim (frow_ticker row),
                 fp_amount = optional_number (frow_amount row)\<rparr>)
       (filter (\<lambda>row. trim (frow_ticker row) \<noteq> []) rows)"

definition handlePortfolioSubmit_start :: "app_state \<Rightarrow> app_state \<times> ValuationRequest option" where
  "handlePortfolioSubmit_start st =
     (if activeTab st \<noteq> PortfolioTab then (st, None)
      else if asOfDate st = [] then
        (st\<lparr>error := Some ''Select an as-of date before requesting valuations.''\<rparr>, None)
      else if length (portfolioPayload (portfolioRows st)) = 0 then
        (st\<lparr>error := Some ''Add at least one company ticker.''\<rparr>, None)
      else
        (st\<lparr>error := None, portfolioLoading := True\<rparr>,
         Some \<lparr>req_as_of_date = asOfDate st,
               req_portfolio = portfolioPayload (portfolioRows st),
               req_funds = []\<rparr>))"

definition portfolio_failure_message :: "fetch_outcome \<Rightarrow> string" where
  "portfolio_failure_message outcome =
     (case outcome of
        NotOk body \<Rightarrow> (if body = [] then ''Unable to fetch valuations.'' else body)
      | ThrownError msg \<Rightarrow> msg
      | _ \<Rightarrow> ''Unexpected error requesting valuations.'')"

definition handlePortfolioSubmit_settle :: "fetch_outcome \<Rightarrow> app_state \<Rightarrow> app_state" where
  "handlePortfolioSubmit_settle outcome st =
     (case outcome of
        Fulfilled payload \<Rightarrow>
          st\<lparr>portfolioResult := portfolio payload,
             portfolioGeneratedAt := Some (generated_at payload),
             portfolioLoading := False\<rparr>
      | _ \<Rightarrow>
          st\<lparr>error := Some (portfolio_failure_message outcome),
             portfolioLoading := False\<rparr>)"

definition handleFundFetch_start :: "app_state \<Rightarrow> app_state \<times> ValuationRequest option" where
  "handleFundFetch_start st =
     (if asOfDate st = [] then
        (st\<lparr>error := Some ''Select an as-of date before requesting fund holdings.''\<rparr>, None)
      else if length (fundPayload (fundRows st)) = 0 then
        (st\<lparr>error := Some ''Add at least one fund or ETF ticker.''\<rparr>, None)
      else
        (st\<lparr>error := None, fundLoading := True\<rparr>,
         Some \<lparr>req_as_of_date = asOfDate st,
               req_portfolio = [],
               req_funds = fundPayload (fundRows st)\<rparr>))"

definition fund_failure_message :: "fetch_outcome \<Rightarrow> string" where
  "fund_failure_message outcome =
     (case outcome of
        NotOk body \<Rightarrow> (if body = [] then ''Unable to fetch fund holdings.'' else body)
      | ThrownError msg \<Rightarrow> msg
      | _ \<Rightarrow> ''Unexpected error requesting fund holdings.'')"

definition handleFundFetch_settle :: "fetch_outcome \<Rightarrow> app_state \<Rightarrow> app_state" where
  "handleFundFetch_settle outcome st =
     (case outcome of
        Fulfilled payload \<Rightarrow>
          st\<lparr>fundResult := funds payload,
             fundGeneratedAt := Some (generated_at payload),
             fundLoading := False\<rparr>
      | _ \<Rightarrow>
          st\<lparr>error := Some (fund_failure_message outcome),
             fundLoading := False\<rparr>)"

text \<open>The events of a session, and the state after a sequence of them.\<close>

datatype event =
    PortfolioSubmit
  | PortfolioSettled fetch_outcome
  | FundFetch
  | FundSettled fetch_outcome
  | SetActiveTab tab
  | SetAsOfDate string

fun step :: "app_state \<Rightarrow> event \<Rightarrow> app_state" where
  "step st PortfolioSubmit = fst (handlePortfolioSubmit_start st)"
| "step st (PortfolioSettled outcome) = handlePortfolioSubmit_settle outcome st"
| "step st FundFetch = fst (handleFundFetch_start st)"
| "step st (FundSettled outcome) = handleFundFetch_settle outcome st"
| "step st (SetActiveTab t) = st\<lparr>activeTab := t\<rparr>"
| "step st (SetAsOfDate d) = st\<lparr>asOfDate := d\<rparr>"

definition run :: "app_state \<Rightarrow> event list \<Rightarrow> app_state" where
  "run st events = foldl step st events"

text \<open>The state when the page is first shown.\<close>

definition initial_state :: "host \<Rightarrow> app_state" where
  "initial_state h =
     \<lparr>asOfDate = [],
      portfolioRows = [\<lparr>row_ticker = [], row_shares = [], row_amount = []\<rparr>],
      fundRows = [\<lparr>frow_ticker = [], frow_amount = []\<rparr>],
      portfolioResult = [],
      fundResult = [],
      portfolioGeneratedAt = None,
      fundGeneratedAt = None,
      portfolioLoading = False,
      fundLoading = False,
      error = None,
      activeTab = PortfolioTab,
      portfolioColumnConfig = initialColumnConfig (portfolioColumns h Map.empty),
      fundHoldingColumnConfig = initialColumnConfig (fundHoldingColumns h)\<rparr>"

section \<open>Auxiliary definitions\<close>

text \<open>
  A number is in range when it is a value that arithmetic can return: a finite number
  below the overflow bound, or one of the special values.
\<close>

definition in_range :: "jsnum \<Rightarrow> bool" where
  "in_range n \<longleftrightarrow> (case n of Fin x \<Rightarrow> round_num x = Fin x | _ \<Rightarrow> True)"

text \<open>Inputs for the concrete evaluations below.\<close>

definition example_company :: "string \<Rightarrow> jsnum option \<Rightarrow> CompanyValuation" where
  "example_company t r =
     \<lparr>ticker = t, company_name = None, currency = None, data_date = None, price_date = None,
      cash_and_equivalents = None, receivables = None, inventories = None, market_price = None,
      shares_outstanding = None, cri_per_share = None, cri_to_market_price_ratio = r,
      shares = None, warnings = []\<rparr>"

definition example_row :: "string \<Rightarrow> string \<Rightarrow> PortfolioInputRow" where
  "example_row t a = \<lparr>row_ticker = t, row_shares = [], row_amount = a\<rparr>"

definition example_fund_row :: "string \<Rightarrow> string \<Rightarrow> FundInputRow" where
  "example_fund_row t a = \<lparr>frow_ticker = t, frow_amount = a\<rparr>"

definition example_fund :: "string \<Rightarrow> jsnum option \<Rightarrow> jsnum option \<Rightarrow> FundValuation" where
  "example_fund t a w =
     \<lparr>f_ticker = t, fund_name = None, f_currency = None, f_market_price = None,
      f_price_date = None, aggregate_cri_per_share = None,
      aggregate_cri_to_market_price_ratio = a, total_weight_covered = w,
      holdings = [], f_warnings = []\<rparr>"

definition example_host :: host where
  "example_host =
     \<lparr>intl_format = (\<lambda>lo hi v. ''#''),
      to_fixed = (\<lambda>d v. ''#''),
      date_iso = (\<lambda>s. None),
      now_iso = ''2025-01-01T00:00:00.000Z''\<rparr>"

definition example_holding :: "string \<Rightarrow> jsnum option \<Rightarrow> FundHoldingValuation" where
  "example_holding t w =
     \<lparr>h_ticker = Some t, h_name = None, isin = None, cusip = None, weight = w,
      company = None, h_warnings = []\<rparr>"

definition example_fund_with_holding :: FundValuation where
  "example_fund_with_holding =
     (example_fund ''VOO'' None None)\<lparr>holdings := [example_holding ''AAPL'' (Some (Fin 0.07))]\<rparr>"

text \<open>The fund table after the user has switched the column Cash off.\<close>

definition cash_hidden_state :: app_state where
  "cash_hidden_state =
     handleFundColumnVisibilityChange example_host ''cash'' False
       ((initial_state example_host)\<lparr>fundResult := [example_fund_with_holding]\<rparr>)"

text \<open>
  The portfolio table with one company in it, after the user has switched every
  column off, one after the other.
\<close>

definition example_company_with_warnings :: CompanyValuation where
  "example_company_with_warnings =
     (example_company ''AAPL'' None)\<lparr>warnings := [''No filing found.'', ''Price is stale.'']\<rparr>"

definition all_hidden_state :: app_state where
  "all_hidden_state =
     foldl (\<lambda>s i. handlePortfolioColumnVisibilityChange example_host i False s)
       ((initial_state example_host)\<lparr>portfolioResult := [example_company_with_warnings]\<rparr>)
       (map col_id (portfolioColumns example_host Map.empty))"

text \<open>A fund whose holdings arrive with an unknown weight first.\<close>

definition example_fund_three_holdings :: FundValuation where
  "example_fund_three_holdings =
     (example_fund ''VOO'' None None)
       \<lparr>holdings := [example_holding ''AAA'' None,
                     example_holding ''BBB'' (Some (Fin 0.2)),
                     example_holding ''CCC'' (Some (Fin 0.5))]\<rparr>"

text \<open>
  The part of the state that belongs to one mode alone: its input rows, its result, the
  time stamp of the result and its loading flag.
\<close>

definition portfolio_side ::
  "app_state \<Rightarrow> PortfolioInputRow list \<times> CompanyValuation list \<times> string option \<times> bool" where
  "portfolio_side st =
     (portfolioRows st, portfolioResult st, portfolioGeneratedAt st, portfolioLoading st)"

definition fund_side ::
  "app_state \<Rightarrow> FundInputRow list \<times> FundValuation list \<times> string option \<times> bool" where
  "fund_side st = (fundRows st, fundResult st, fundGeneratedAt st, fundLoading st)"

text \<open>A request fails unless it ends with an ok response.\<close>

definition is_failure :: "fetch_outcome \<Rightarrow> bool" where
  "is_failure outcome = (case outcome of Fulfilled payload \<Rightarrow> False | _ \<Rightarrow> True)"

text \<open>A session with a date and one ticker entered in each mode, and a response.\<close>

definition ready_state :: app_state where
  "ready_state =
     (initial_state example_host)
       \<lparr>asOfDate := ''2025-01-01'',
        portfolioRows := [example_row ''AAPL'' ''100''],
        fundRows := [example_fund_row ''VOO'' ''50'']\<rparr>"

definition example_response :: ValuationResponse where
  "example_response =
     \<lparr>generated_at = ''2025-01-02T10:00:00Z'', as_of_date = ''2025-01-01'',
      portfolio = [example_company ''AAPL'' (Some (Fin 0.01))], funds = []\<rparr>"

text \<open>The same session while the message of an earlier failure is on the page.\<close>

definition ready_state_with_error :: app_state where
  "ready_state_with_error = ready_state\<lparr>error := Some ''Add at least one company ticker.''\<rparr>"

text \<open>The carriage return, and a fund with a holding whose weight is \<^verbatim>\<open>-Infinity\<close>.\<close>

definition carriage_return :: char where
  "carriage_return = CHR 0x0D"

definition example_fund_negative_infinity :: FundValuation where
  "example_fund_negative_infinity =
     (example_fund ''VOO'' None None)
       \<lparr>holdings := [example_holding ''AAA'' None, example_holding ''EEE'' (Some NInf)]\<rparr>"

definition example_fund_positive_infinity :: FundValuation where
  "example_fund_positive_infinity =
     (example_fund ''VOO'' None None)
       \<lparr>holdings := [example_holding ''AAA'' None,
                     example_holding ''BBB'' (Some (Fin 0.2)),
                     example_holding ''DDD'' (Some PInf)]\<rparr>"

section \<open>Facts about numbers and strings\<close>

lemmas string_defs = trim_def is_ws1_def is_ws2_def is_ws3_def toUpperCase_def toLowerCase_def upper_char_def
  lower_char_def upper_letters_def lower_letters_def ledger_key_def

lemmas number_defs = Number_def parse_numeric_def parse_decimal_def parse_unsigned_decimal_def
  parse_mantissa_def parse_exponent_def parse_radix_def digits0_def digits1_def digit_in_def
  digit_chars_def digit_values_def is_exp_char_def scale10_def inf_of_sign_def

lemma overflow_bound_pos: "0 < overflow_bound"
  by (simp add: overflow_bound_def)

lemma round_num_zero: "round_num 0 = Fin 0"
  using overflow_bound_pos by (simp add: round_num_def)

lemma round_num_small: "\<bar>x\<bar> \<le> 2 ^ 64 \<Longrightarrow> round_num x = Fin x"
proof -
  assume a: "\<bar>x\<bar> \<le> 2 ^ 64"
  have "(2::real) ^ 64 < overflow_bound" by (simp add: overflow_bound_def)
  with a have "x < overflow_bound" "- overflow_bound < x" by linarith+
  then show ?thesis by (simp add: round_num_def)
qed

lemma in_range_round_num: "in_range (round_num v)"
  by (simp add: in_range_def round_num_def)

lemma in_range_inf_of_sign: "in_range (inf_of_sign s)"
  by (simp add: in_range_def inf_of_sign_def)

lemma in_range_parse_radix: "in_range (parse_radix b ds)"
  by (cases "digits1 b ds") (simp_all add: parse_radix_def in_range_round_num, simp add: in_range_def)

lemma in_range_parse_decimal: "in_range (parse_decimal s)"
proof (cases "split_sign s")
  case (Pair sg u)
  show ?thesis
  proof (cases "u = ''Infinity''")
    case True
    with Pair show ?thesis by (simp add: parse_decimal_def in_range_inf_of_sign)
  next
    case False
    with Pair show ?thesis
      by (cases "parse_unsigned_decimal u")
         (simp_all add: parse_decimal_def in_range_round_num, simp add: in_range_def)
  qed
qed

lemma in_range_parse_numeric: "in_range (parse_numeric t)"
  by (simp add: parse_numeric_def in_range_parse_radix in_range_parse_decimal split: list.split)

text \<open>Whatever \<^verbatim>\<open>Number\<close> returns is in range, so adding it to \<open>0\<close> gives it back.\<close>

lemma in_range_Number: "in_range (Number s)"
  using round_num_zero
  by (simp add: Number_def Let_def in_range_parse_numeric) (simp add: in_range_def)

lemma add_zero_Number: "isFinite (Number s) \<Longrightarrow> num_add (Fin 0) (Number s) = Number s"
  using in_range_Number [of s] by (cases "Number s") (simp_all add: in_range_def)

lemma Number_blank: "trim s = [] \<Longrightarrow> Number s = Fin 0"
  by (simp add: Number_def)

lemma Number_100: "Number ''100'' = Fin 100"
  by (simp add: number_defs string_defs round_num_small)

lemma Number_50_5: "Number ''50.5'' = Fin 50.5"
  by (simp add: number_defs string_defs round_num_small)

lemma Number_abc: "Number ''abc'' = NaN"
  by (simp add: number_defs string_defs)

lemma key_AAPL: "ledger_key ''AAPL'' = ''AAPL''"
  by (simp add: string_defs)

lemma key_aapl: "ledger_key ''aapl'' = ''AAPL''"
  by (simp add: string_defs)

lemma key_AAPL_spaces: "ledger_key '' AAPL '' = ''AAPL''"
  by (simp add: string_defs)

lemma key_voo: "ledger_key ''voo'' = ''VOO''"
  by (simp add: string_defs)

section \<open>The ledgers sum the amounts of a ticker\<close>

text \<open>
  The loop, started from any map: a ticker without a usable row keeps its entry, any
  other ticker maps to its old amount (or \<open>0\<close>) plus the amounts of its rows in order.
\<close>

lemma ledger_fold_gen:
  "foldl (\<lambda>m r. ledger_step (fst r) (snd r) m) m rows t =
     (if t = [] \<or> entered_amounts rows t = [] then m t
      else Some (foldl num_add (case m t of None \<Rightarrow> Fin 0 | Some v \<Rightarrow> v)
                   (entered_amounts rows t)))"
proof (induction rows arbitrary: m)
  case Nil
  then show ?case by (simp add: entered_amounts_def)
next
  case (Cons r rows)
  show ?case
    by (simp add: Cons.IH) (auto simp: ledger_step_def entered_amounts_def Let_def)
qed

lemma portfolioAmountMap_summed: "portfolioAmountMap rows = summed_ledger (portfolio_entries rows)"
proof
  fix t
  have "portfolioAmountMap rows =
        foldl (\<lambda>m r. ledger_step (fst r) (snd r) m) Map.empty (portfolio_entries rows)"
    by (simp add: portfolioAmountMap_def portfolio_entries_def foldl_map)
  then show "portfolioAmountMap rows t = summed_ledger (portfolio_entries rows) t"
    by (simp add: ledger_fold_gen summed_ledger_def)
qed

lemma fundAmountMap_summed: "fundAmountMap rows = summed_ledger (fund_entries rows)"
proof
  fix t
  have "fundAmountMap rows =
        foldl (\<lambda>m r. ledger_step (fst r) (snd r) m) Map.empty (fund_entries rows)"
    by (simp add: fundAmountMap_def fund_entries_def foldl_map)
  then show "fundAmountMap rows t = summed_ledger (fund_entries rows) t"
    by (simp add: ledger_fold_gen summed_ledger_def)
qed

lemma summed_ledger_no_empty_key: "summed_ledger rows [] = None"
  by (simp add: summed_ledger_def)

lemma summed_ledger_drop:
  "ledger_key (fst r) = [] \<or> \<not> isFinite (Number (snd r)) \<Longrightarrow>
   summed_ledger (rs @ r # rs') = summed_ledger (rs @ rs')"
  by (rule ext) (auto simp: summed_ledger_def entered_amounts_def)

lemma summed_ledger_pair:
  assumes "ledger_key t1 = ledger_key t2" "ledger_key t1 \<noteq> []"
    "isFinite (Number a1)" "isFinite (Number a2)"
  shows "summed_ledger [(t1, a1), (t2, a2)] (ledger_key t1) =
         Some (num_add (Number a1) (Number a2))"
  using assms by (simp add: summed_ledger_def entered_amounts_def add_zero_Number)

lemma foldl_add_zeros: "\<forall>x \<in> set xs. x = Fin 0 \<Longrightarrow> foldl num_add (Fin 0) xs = Fin 0"
  by (induction xs) (simp_all add: round_num_zero)

lemma summed_ledger_present:
  assumes "(t, a) \<in> set rows" "ledger_key t \<noteq> []" "isFinite (Number a)"
  shows "summed_ledger rows (ledger_key t) \<noteq> None"
proof -
  have "Number a \<in> set (entered_amounts rows (ledger_key t))"
    using assms by (force simp: entered_amounts_def)
  then have "entered_amounts rows (ledger_key t) \<noteq> []" by auto
  with assms show ?thesis by (simp add: summed_ledger_def)
qed

lemma summed_ledger_all_blank:
  assumes "(t, a) \<in> set rows" "ledger_key t \<noteq> []" "trim a = []"
    and "\<forall>r \<in> set rows. ledger_key (fst r) = ledger_key t \<longrightarrow> trim (snd r) = []"
  shows "summed_ledger rows (ledger_key t) = Some (Fin 0)"
proof -
  have "Number a \<in> set (entered_amounts rows (ledger_key t))"
    using assms(1-3) by (force simp: entered_amounts_def Number_blank)
  then have ne: "entered_amounts rows (ledger_key t) \<noteq> []" by auto
  have "\<forall>x \<in> set (entered_amounts rows (ledger_key t)). x = Fin 0"
    using assms(4) by (auto simp: entered_amounts_def Number_blank)
  then have "foldl num_add (Fin 0) (entered_amounts rows (ledger_key t)) = Fin 0"
    by (rule foldl_add_zeros)
  with ne assms(2) show ?thesis by (simp add: summed_ledger_def)
qed

text \<open>
  Claim C5. Each ledger is the summed ledger of its own rows: a trimmed, uppercased,
  non-empty ticker maps to the sum of the finite amounts entered for it, and a ticker
  with no such amount is absent. Two rows for the same ticker, in any letter case and
  with surrounding blanks, give the sum of their two amounts. A row whose amount is not
  a finite number leaves the ledger as it is without it. The portfolio ledger does not
  change when the fund rows change, and the other way round.
\<close>

theorem ledgers_sum_finite_amounts_per_ticker:
  "portfolioAmountMap prs = summed_ledger (portfolio_entries prs)
   \<and> fundAmountMap frs = summed_ledger (fund_entries frs)
   \<and> (ledger_key t1 = ledger_key t2 \<and> ledger_key t1 \<noteq> []
        \<and> isFinite (Number a1) \<and> isFinite (Number a2) \<longrightarrow>
        portfolioAmountMap
          [\<lparr>row_ticker = t1, row_shares = s1, row_amount = a1\<rparr>,
           \<lparr>row_ticker = t2, row_shares = s2, row_amount = a2\<rparr>] (ledger_key t1)
          = Some (num_add (Number a1) (Number a2))
        \<and> fundAmountMap
          [\<lparr>frow_ticker = t1, frow_amount = a1\<rparr>, \<lparr>frow_ticker = t2, frow_amount = a2\<rparr>]
          (ledger_key t1)
          = Some (num_add (Number a1) (Number a2)))
   \<and> (\<not> isFinite (Number (row_amount r)) \<longrightarrow>
        portfolioAmountMap (prs @ r # prs') = portfolioAmountMap (prs @ prs'))
   \<and> (\<not> isFinite (Number (frow_amount fr)) \<longrightarrow>
        fundAmountMap (frs @ fr # frs') = fundAmountMap (frs @ frs'))
   \<and> portfolioAmountMap (portfolioRows (st\<lparr>fundRows := frs\<rparr>))
       = portfolioAmountMap (portfolioRows st)
   \<and> fundAmountMap (fundRows (st\<lparr>portfolioRows := prs\<rparr>)) = fundAmountMap (fundRows st)"
proof -
  have pair_p: "portfolioAmountMap
          [\<lparr>row_ticker = t1, row_shares = s1, row_amount = a1\<rparr>,
           \<lparr>row_ticker = t2, row_shares = s2, row_amount = a2\<rparr>] (ledger_key t1)
          = Some (num_add (Number a1) (Number a2))"
    if "ledger_key t1 = ledger_key t2" "ledger_key t1 \<noteq> []"
       "isFinite (Number a1)" "isFinite (Number a2)"
    using summed_ledger_pair [OF that]
    by (simp add: portfolioAmountMap_summed portfolio_entries_def)
  have pair_f: "fundAmountMap
          [\<lparr>frow_ticker = t1, frow_amount = a1\<rparr>, \<lparr>frow_ticker = t2, frow_amount = a2\<rparr>]
          (ledger_key t1)
          = Some (num_add (Number a1) (Number a2))"
    if "ledger_key t1 = ledger_key t2" "ledger_key t1 \<noteq> []"
       "isFinite (Number a1)" "isFinite (Number a2)"
    using summed_ledger_pair [OF that] by (simp add: fundAmountMap_summed fund_entries_def)
  have drop_p: "portfolioAmountMap (prs @ r # prs') = portfolioAmountMap (prs @ prs')"
    if "\<not> isFinite (Number (row_amount r))"
    using that summed_ledger_drop [of "(row_ticker r, row_amount r)"
        "portfolio_entries prs" "portfolio_entries prs'"]
    by (simp add: portfolioAmountMap_summed portfolio_entries_def)
  have drop_f: "fundAmountMap (frs @ fr # frs') = fundAmountMap (frs @ frs')"
    if "\<not> isFinite (Number (frow_amount fr))"
    using that summed_ledger_drop [of "(frow_ticker fr, frow_amount fr)"
        "fund_entries frs" "fund_entries frs'"]
    by (simp add: fundAmountMap_summed fund_entries_def)
  have indep_p: "portfolioAmountMap (portfolioRows (st\<lparr>fundRows := frs\<rparr>))
       = portfolioAmountMap (portfolioRows st)"
    by simp
  have indep_f: "fundAmountMap (fundRows (st\<lparr>portfolioRows := prs\<rparr>)) = fundAmountMap (fundRows st)"
    by simp
  from portfolioAmountMap_summed [of prs] fundAmountMap_summed [of frs]
    pair_p pair_f drop_p drop_f indep_p indep_f
  show ?thesis by blast
qed

theorem ledgers_sum_finite_amounts_witness:
  "ledger_key ''aapl'' = ledger_key '' AAPL '' \<and> ledger_key ''aapl'' \<noteq> []
   \<and> isFinite (Number ''100'') \<and> isFinite (Number ''50.5'')
   \<and> portfolioAmountMap [example_row ''aapl'' ''100'', example_row '' AAPL '' ''50.5''] ''AAPL''
       = Some (Fin 150.5)
   \<and> fundAmountMap [example_fund_row ''aapl'' ''100'', example_fund_row '' AAPL '' ''50.5''] ''AAPL''
       = Some (Fin 150.5)
   \<and> \<not> isFinite (Number ''abc'')
   \<and> portfolioAmountMap ([example_row ''AAPL'' ''100''] @ example_row ''AAPL'' ''abc'' # [])
       = portfolioAmountMap ([example_row ''AAPL'' ''100''] @ [])
   \<and> fundAmountMap ([example_fund_row ''AAPL'' ''100''] @ example_fund_row ''AAPL'' ''abc'' # [])
       = fundAmountMap ([example_fund_row ''AAPL'' ''100''] @ [])"
  using ledgers_sum_finite_amounts_per_ticker
    [where ?t1.0 = "''aapl''" and ?t2.0 = "'' AAPL ''" and ?a1.0 = "''100''" and ?a2.0 = "''50.5''"
       and ?s1.0 = "[]" and ?s2.0 = "[]"
       and r = "example_row ''AAPL'' ''abc''" and prs = "[example_row ''AAPL'' ''100'']"
       and prs' = "[]"
       and fr = "example_fund_row ''AAPL'' ''abc''" and frs = "[example_fund_row ''AAPL'' ''100'']"
       and frs' = "[]"]
  by (simp add: key_aapl key_AAPL_spaces Number_100 Number_50_5 Number_abc round_num_small
      example_row_def example_fund_row_def)
section \<open>Zakat calculator\<close>

lemma toUpperCase_AAPL: "toUpperCase ''AAPL'' = ''AAPL''"
  by (simp add: string_defs)

lemma toUpperCase_VOO: "toUpperCase ''VOO'' = ''VOO''"
  by (simp add: string_defs)

lemma ledger_example: "portfolioAmountMap [example_row ''AAPL'' ''100''] ''AAPL'' = Some (Fin 100)"
  by (simp add: portfolioAmountMap_def example_row_def ledger_step_def key_AAPL Number_100
      round_num_small)

text \<open>
  Claim C1 says that the zakatable amount and the zakat due are unknown unless the
  ratio is a finite number. The code tests \<^verbatim>\<open>typeof ratio === "number"\<close>, which an
  infinite ratio passes: with \<open>100\<close> invested in AAPL and a ratio of \<open>+Infinity\<close>, both
  results are the number \<open>+Infinity\<close>, not \<^verbatim>\<open>null\<close>.
\<close>

theorem zakat_defined_for_infinite_ratio:
  "computePortfolioZakatableAmount (portfolioAmountMap [example_row ''AAPL'' ''100''])
     (example_company ''AAPL'' (Some PInf)) = Some PInf
   \<and> computePortfolioZakatDue (portfolioAmountMap [example_row ''AAPL'' ''100''])
     (example_company ''AAPL'' (Some PInf)) = Some PInf
   \<and> \<not> isFinite PInf"
proof -
  have z: "computePortfolioZakatableAmount (portfolioAmountMap [example_row ''AAPL'' ''100''])
     (example_company ''AAPL'' (Some PInf)) = Some PInf"
    by (simp add: computePortfolioZakatableAmount_def example_company_def toUpperCase_AAPL
        ledger_example inf_of_sign_def)
  then show ?thesis
    by (simp add: computePortfolioZakatDue_def ZAKAT_RATE_def inf_of_sign_def)
qed

text \<open>
  Claim C1, amended. For every list of portfolio rows and every company, the zakatable
  amount is the product of the ledger's amount for the company's uppercased ticker and
  the company's ratio, and it is defined exactly when the ledger has that ticker and
  the ratio is present (a number of any kind, NaN and the infinities included); the
  zakat due is that amount times 0.025, defined exactly when the amount is. Otherwise
  both are unknown, never \<open>0\<close>.
\<close>

theorem zakat_is_product_when_amount_and_ratio_present:
  "computePortfolioZakatableAmount (portfolioAmountMap rows) c =
     (case portfolioAmountMap rows (toUpperCase (ticker c)) of
        None \<Rightarrow> None
      | Some a \<Rightarrow>
          (case cri_to_market_price_ratio c of
             None \<Rightarrow> None
           | Some r \<Rightarrow> Some (num_mul a r)))
   \<and> computePortfolioZakatDue (portfolioAmountMap rows) c =
       map_option (\<lambda>z. num_mul z ZAKAT_RATE)
         (computePortfolioZakatableAmount (portfolioAmountMap rows) c)"
proof -
  have "ticker c = [] \<Longrightarrow> portfolioAmountMap rows (toUpperCase (ticker c)) = None"
    by (simp add: portfolioAmountMap_summed summed_ledger_no_empty_key toUpperCase_def)
  then have "computePortfolioZakatableAmount (portfolioAmountMap rows) c =
     (case portfolioAmountMap rows (toUpperCase (ticker c)) of
        None \<Rightarrow> None
      | Some a \<Rightarrow>
          (case cri_to_market_price_ratio c of
             None \<Rightarrow> None
           | Some r \<Rightarrow> Some (num_mul a r)))"
    by (simp add: computePortfolioZakatableAmount_def)
  moreover have "computePortfolioZakatDue (portfolioAmountMap rows) c =
       map_option (\<lambda>z. num_mul z ZAKAT_RATE)
         (computePortfolioZakatableAmount (portfolioAmountMap rows) c)"
    by (simp add: computePortfolioZakatDue_def split: option.split)
  ultimately show ?thesis by simp
qed

text \<open>
  The amended claim at the scenario of the specification (a ratio of 0.01 and 100000
  invested give 1000 and 25), and at a company without a ratio.
\<close>

theorem zakat_is_product_witness:
  "computePortfolioZakatableAmount (portfolioAmountMap [example_row ''aapl'' ''100000''])
     (example_company ''AAPL'' (Some (Fin 0.01))) = Some (Fin 1000)
   \<and> computePortfolioZakatDue (portfolioAmountMap [example_row ''aapl'' ''100000''])
     (example_company ''AAPL'' (Some (Fin 0.01))) = Some (Fin 25)
   \<and> computePortfolioZakatableAmount (portfolioAmountMap [example_row ''aapl'' ''100000''])
     (example_company ''AAPL'' None) = None
   \<and> computePortfolioZakatableAmount (portfolioAmountMap [example_row ''aapl'' ''100000''])
     (example_company ''MSFT'' (Some (Fin 0.01))) = None"
proof -
  have n: "Number ''100000'' = Fin 100000"
    by (simp add: number_defs string_defs round_num_small)
  have l: "portfolioAmountMap [example_row ''aapl'' ''100000''] =
           Map.empty(''AAPL'' \<mapsto> Fin 100000)"
    by (simp add: portfolioAmountMap_def example_row_def ledger_step_def key_aapl n round_num_small)
  have u: "toUpperCase ''MSFT'' = ''MSFT''" by (simp add: string_defs)
  show ?thesis
    using zakat_is_product_when_amount_and_ratio_present
            [of "[example_row ''aapl'' ''100000'']" "example_company ''AAPL'' (Some (Fin 0.01))"]
          zakat_is_product_when_amount_and_ratio_present
            [of "[example_row ''aapl'' ''100000'']" "example_company ''AAPL'' None"]
          zakat_is_product_when_amount_and_ratio_present
            [of "[example_row ''aapl'' ''100000'']" "example_company ''MSFT'' (Some (Fin 0.01))"]
    by (simp add: l u toUpperCase_AAPL example_company_def ZAKAT_RATE_def round_num_small)
qed

lemma summed_ledger_value:
  assumes "(t, a) \<in> set rows" "ledger_key t \<noteq> []" "isFinite (Number a)"
  shows "Number a \<in> set (entered_amounts rows (ledger_key t))
         \<and> summed_ledger rows (ledger_key t) =
             Some (foldl num_add (Fin 0) (entered_amounts rows (ledger_key t)))"
proof -
  have m: "Number a \<in> set (entered_amounts rows (ledger_key t))"
    using assms by (force simp: entered_amounts_def)
  then have "entered_amounts rows (ledger_key t) \<noteq> []" by auto
  with assms m show ?thesis by (simp add: summed_ledger_def)
qed

text \<open>
  Claim C10 says that the ledger maps the ticker of a row with a blank amount to \<open>0\<close>
  and that the zakatable amount for the ticker is then \<open>0\<close>, not unknown. The ledger
  sums the rows of a ticker: with a blank row and a row of amount \<open>5\<close> for AAPL it maps
  AAPL to \<open>5\<close>. And with AAPL mapped to \<open>0\<close>, the zakatable amount of a company without
  a ratio is still unknown.
\<close>

theorem blank_amount_ledger_not_always_zero:
  "portfolioAmountMap [example_row ''AAPL'' [], example_row ''AAPL'' ''5''] ''AAPL'' = Some (Fin 5)
   \<and> portfolioAmountMap [example_row ''AAPL'' []] ''AAPL'' = Some (Fin 0)
   \<and> computePortfolioZakatableAmount (portfolioAmountMap [example_row ''AAPL'' []])
       (example_company ''AAPL'' None) = None"
proof -
  have n: "Number ''5'' = Fin 5" "Number [] = Fin 0"
    by (simp_all add: number_defs string_defs round_num_small)
  show ?thesis
    by (simp add: portfolioAmountMap_def example_row_def ledger_step_def key_AAPL n
        round_num_small computePortfolioZakatableAmount_def example_company_def toUpperCase_AAPL)
qed

text \<open>
  Claim C10, amended. A row with a non-empty ticker and a blank amount (empty or white
  space only) is not dropped: its amount converts to the finite number \<open>0\<close> and passes
  the finiteness filter, so its ticker is in the ledger whatever the other rows are,
  mapped to the sum of the amounts entered for the ticker, among which this row counts
  as \<open>0\<close>. The ledger therefore maps the ticker to \<open>0\<close> when every row of the ticker
  has a blank amount. The zakatable amount of a company (or fund) with that ticker is
  the ledger amount times the ratio whenever the ratio is present, and unknown when it
  is absent; it is \<open>0\<close>, not unknown, when the ledger amount is \<open>0\<close> and the ratio is
  finite. The same holds for the fund ledger.
\<close>

theorem blank_amount_enters_ledger_as_zero:
  "(row \<in> set rows \<and> ledger_key (row_ticker row) \<noteq> [] \<and> trim (row_amount row) = [] \<longrightarrow>
      Number (row_amount row) = Fin 0
      \<and> isFinite (Number (row_amount row))
      \<and> Fin 0 \<in> set (entered_amounts (portfolio_entries rows) (ledger_key (row_ticker row)))
      \<and> portfolioAmountMap rows (ledger_key (row_ticker row)) =
          Some (foldl num_add (Fin 0)
                  (entered_amounts (portfolio_entries rows) (ledger_key (row_ticker row))))
      \<and> ((\<forall>r \<in> set rows. ledger_key (row_ticker r) = ledger_key (row_ticker row)
                              \<longrightarrow> trim (row_amount r) = []) \<longrightarrow>
           portfolioAmountMap rows (ledger_key (row_ticker row)) = Some (Fin 0))
      \<and> (toUpperCase (ticker c) = ledger_key (row_ticker row) \<longrightarrow>
           computePortfolioZakatableAmount (portfolioAmountMap rows) c =
             map_option
               (num_mul (foldl num_add (Fin 0)
                  (entered_amounts (portfolio_entries rows) (ledger_key (row_ticker row)))))
               (cri_to_market_price_ratio c))
      \<and> (toUpperCase (ticker c) = ledger_key (row_ticker row)
           \<and> portfolioAmountMap rows (ledger_key (row_ticker row)) = Some (Fin 0)
           \<and> cri_to_market_price_ratio c = Some (Fin x) \<longrightarrow>
           computePortfolioZakatableAmount (portfolioAmountMap rows) c = Some (Fin 0)))
   \<and> (frow \<in> set frows \<and> ledger_key (frow_ticker frow) \<noteq> [] \<and> trim (frow_amount frow) = [] \<longrightarrow>
      Number (frow_amount frow) = Fin 0
      \<and> isFinite (Number (frow_amount frow))
      \<and> Fin 0 \<in> set (entered_amounts (fund_entries frows) (ledger_key (frow_ticker frow)))
      \<and> fundAmountMap frows (ledger_key (frow_ticker frow)) =
          Some (foldl num_add (Fin 0)
                  (entered_amounts (fund_entries frows) (ledger_key (frow_ticker frow))))
      \<and> ((\<forall>r \<in> set frows. ledger_key (frow_ticker r) = ledger_key (frow_ticker frow)
                               \<longrightarrow> trim (frow_amount r) = []) \<longrightarrow>
           fundAmountMap frows (ledger_key (frow_ticker frow)) = Some (Fin 0))
      \<and> (toUpperCase (f_ticker fund) = ledger_key (frow_ticker frow) \<longrightarrow>
           zakatableAmount (fundAmountMap frows) fund =
             map_option
               (num_mul (foldl num_add (Fin 0)
                  (entered_amounts (fund_entries frows) (ledger_key (frow_ticker frow)))))
               (extrapolatedCriRatio fund))
      \<and> (toUpperCase (f_ticker fund) = ledger_key (frow_ticker frow)
           \<and> fundAmountMap frows (ledger_key (frow_ticker frow)) = Some (Fin 0)
           \<and> extrapolatedCriRatio fund = Some (Fin y) \<longrightarrow>
           zakatableAmount (fundAmountMap frows) fund = Some (Fin 0)))"
proof (intro conjI impI)
  assume a: "row \<in> set rows \<and> ledger_key (row_ticker row) \<noteq> [] \<and> trim (row_amount row) = []"
  then have mem: "(row_ticker row, row_amount row) \<in> set (portfolio_entries rows)"
    by (auto simp: portfolio_entries_def)
  from a show n0: "Number (row_amount row) = Fin 0" by (simp add: Number_blank)
  then show fin: "isFinite (Number (row_amount row))" by simp
  from a mem fin n0
  show "Fin 0 \<in> set (entered_amounts (portfolio_entries rows) (ledger_key (row_ticker row)))"
    using summed_ledger_value [of "row_ticker row" "row_amount row" "portfolio_entries rows"]
    by simp
  from a mem fin
  show v: "portfolioAmountMap rows (ledger_key (row_ticker row)) =
          Some (foldl num_add (Fin 0)
                  (entered_amounts (portfolio_entries rows) (ledger_key (row_ticker row))))"
    using summed_ledger_value [of "row_ticker row" "row_amount row" "portfolio_entries rows"]
    by (simp add: portfolioAmountMap_summed)
  {
    assume "\<forall>r \<in> set rows. ledger_key (row_ticker r) = ledger_key (row_ticker row)
                              \<longrightarrow> trim (row_amount r) = []"
    then have "\<forall>r \<in> set (portfolio_entries rows).
                 ledger_key (fst r) = ledger_key (row_ticker row) \<longrightarrow> trim (snd r) = []"
      by (auto simp: portfolio_entries_def)
    with a mem show "portfolioAmountMap rows (ledger_key (row_ticker row)) = Some (Fin 0)"
      by (simp add: portfolioAmountMap_summed summed_ledger_all_blank)
  }
  {
    assume "toUpperCase (ticker c) = ledger_key (row_ticker row)"
    with a v show "computePortfolioZakatableAmount (portfolioAmountMap rows) c =
             map_option
               (num_mul (foldl num_add (Fin 0)
                  (entered_amounts (portfolio_entries rows) (ledger_key (row_ticker row)))))
               (cri_to_market_price_ratio c)"
      by (cases "cri_to_market_price_ratio c")
         (auto simp: computePortfolioZakatableAmount_def toUpperCase_def)
  }
  {
    assume "toUpperCase (ticker c) = ledger_key (row_ticker row)
           \<and> portfolioAmountMap rows (ledger_key (row_ticker row)) = Some (Fin 0)
           \<and> cri_to_market_price_ratio c = Some (Fin x)"
    with a show "computePortfolioZakatableAmount (portfolioAmountMap rows) c = Some (Fin 0)"
      by (auto simp: computePortfolioZakatableAmount_def round_num_zero toUpperCase_def)
  }
next
  assume a: "frow \<in> set frows \<and> ledger_key (frow_ticker frow) \<noteq> [] \<and> trim (frow_amount frow) = []"
  then have mem: "(frow_ticker frow, frow_amount frow) \<in> set (fund_entries frows)"
    by (auto simp: fund_entries_def)
  from a show n0: "Number (frow_amount frow) = Fin 0" by (simp add: Number_blank)
  then show fin: "isFinite (Number (frow_amount frow))" by simp
  from a mem fin n0
  show "Fin 0 \<in> set (entered_amounts (fund_entries frows) (ledger_key (frow_ticker frow)))"
    using summed_ledger_value [of "frow_ticker frow" "frow_amount frow" "fund_entries frows"]
    by simp
  from a mem fin
  show v: "fundAmountMap frows (ledger_key (frow_ticker frow)) =
          Some (foldl num_add (Fin 0)
                  (entered_amounts (fund_entries frows) (ledger_key (frow_ticker frow))))"
    using summed_ledger_value [of "frow_ticker frow" "frow_amount frow" "fund_entries frows"]
    by (simp add: fundAmountMap_summed)
  {
    assume "\<forall>r \<in> set frows. ledger_key (frow_ticker r) = ledger_key (frow_ticker frow)
                               \<longrightarrow> trim (frow_amount r) = []"
    then have "\<forall>r \<in> set (fund_entries frows).
                 ledger_key (fst r) = ledger_key (frow_ticker frow) \<longrightarrow> trim (snd r) = []"
      by (auto simp: fund_entries_def)
    with a mem show "fundAmountMap frows (ledger_key (frow_ticker frow)) = Some (Fin 0)"
      by (simp add: fundAmountMap_summed summed_ledger_all_blank)
  }
  {
    assume "toUpperCase (f_ticker fund) = ledger_key (frow_ticker frow)"
    with v show "zakatableAmount (fundAmountMap frows) fund =
             map_option
               (num_mul (foldl num_add (Fin 0)
                  (entered_amounts (fund_entries frows) (ledger_key (frow_ticker frow)))))
               (extrapolatedCriRatio fund)"
      by (cases "extrapolatedCriRatio fund") (simp_all add: zakatableAmount_def)
  }
  {
    assume "toUpperCase (f_ticker fund) = ledger_key (frow_ticker frow)
           \<and> fundAmountMap frows (ledger_key (frow_ticker frow)) = Some (Fin 0)
           \<and> extrapolatedCriRatio fund = Some (Fin y)"
    then show "zakatableAmount (fundAmountMap frows) fund = Some (Fin 0)"
      by (simp add: zakatableAmount_def round_num_zero)
  }
qed

theorem blank_amount_enters_ledger_witness:
  "example_row ''aapl'' ''  '' \<in> set [example_row ''aapl'' ''  '']
   \<and> ledger_key (row_ticker (example_row ''aapl'' ''  '')) \<noteq> []
   \<and> trim (row_amount (example_row ''aapl'' ''  '')) = []
   \<and> portfolioAmountMap [example_row ''aapl'' ''  ''] ''AAPL'' = Some (Fin 0)
   \<and> computePortfolioZakatableAmount (portfolioAmountMap [example_row ''aapl'' ''  ''])
       (example_company ''AAPL'' (Some (Fin 0.01))) = Some (Fin 0)
   \<and> example_fund_row ''voo'' [] \<in> set [example_fund_row ''voo'' []]
   \<and> ledger_key (frow_ticker (example_fund_row ''voo'' [])) \<noteq> []
   \<and> trim (frow_amount (example_fund_row ''voo'' [])) = []
   \<and> fundAmountMap [example_fund_row ''voo'' []] ''VOO'' = Some (Fin 0)
   \<and> zakatableAmount (fundAmountMap [example_fund_row ''voo'' []])
       (example_fund ''VOO'' (Some (Fin 0.008)) (Some (Fin 0.8))) = Some (Fin 0)"
proof -
  have t: "trim ''  '' = []" "trim [] = []"
    by (simp_all add: trim_def is_ws1_def is_ws2_def is_ws3_def)
  note w = blank_amount_enters_ledger_as_zero
            [of "example_row ''aapl'' ''  ''" "[example_row ''aapl'' ''  '']"
                "example_company ''AAPL'' (Some (Fin 0.01))" "0.01"
                "example_fund_row ''voo'' []" "[example_fund_row ''voo'' []]"
                "example_fund ''VOO'' (Some (Fin 0.008)) (Some (Fin 0.8))" "0.01"]
  have hp: "example_row ''aapl'' ''  '' \<in> set [example_row ''aapl'' ''  '']
      \<and> ledger_key (row_ticker (example_row ''aapl'' ''  '')) \<noteq> []
      \<and> trim (row_amount (example_row ''aapl'' ''  '')) = []"
    by (simp add: example_row_def key_aapl t)
  have hf: "example_fund_row ''voo'' [] \<in> set [example_fund_row ''voo'' []]
      \<and> ledger_key (frow_ticker (example_fund_row ''voo'' [])) \<noteq> []
      \<and> trim (frow_amount (example_fund_row ''voo'' [])) = []"
    by (simp add: example_fund_row_def key_voo t)
  have bp: "\<forall>r \<in> set [example_row ''aapl'' ''  ''].
              ledger_key (row_ticker r) = ledger_key (row_ticker (example_row ''aapl'' ''  ''))
              \<longrightarrow> trim (row_amount r) = []"
    by (simp add: example_row_def t)
  have bf: "\<forall>r \<in> set [example_fund_row ''voo'' []].
              ledger_key (frow_ticker r) = ledger_key (frow_ticker (example_fund_row ''voo'' []))
              \<longrightarrow> trim (frow_amount r) = []"
    by (simp add: example_fund_row_def t)
  have kp: "ledger_key (row_ticker (example_row ''aapl'' ''  '')) = ''AAPL''"
    by (simp add: example_row_def key_aapl)
  have kf: "ledger_key (frow_ticker (example_fund_row ''voo'' [])) = ''VOO''"
    by (simp add: example_fund_row_def key_voo)
  from w hp bp have lp: "portfolioAmountMap [example_row ''aapl'' ''  ''] ''AAPL'' = Some (Fin 0)"
    unfolding kp by blast
  from w hf bf have lf: "fundAmountMap [example_fund_row ''voo'' []] ''VOO'' = Some (Fin 0)"
    unfolding kf by blast
  have cp: "toUpperCase (ticker (example_company ''AAPL'' (Some (Fin 0.01)))) = ''AAPL''
            \<and> cri_to_market_price_ratio (example_company ''AAPL'' (Some (Fin 0.01))) = Some (Fin 0.01)"
    by (simp add: example_company_def toUpperCase_AAPL)
  have cf: "toUpperCase (f_ticker (example_fund ''VOO'' (Some (Fin 0.008)) (Some (Fin 0.8)))) = ''VOO''
            \<and> extrapolatedCriRatio (example_fund ''VOO'' (Some (Fin 0.008)) (Some (Fin 0.8)))
                = Some (Fin 0.01)"
    by (simp add: example_fund_def toUpperCase_VOO extrapolatedCriRatio_def num_gt_def
        round_num_small)
  from w hp lp cp
  have zp: "computePortfolioZakatableAmount (portfolioAmountMap [example_row ''aapl'' ''  ''])
       (example_company ''AAPL'' (Some (Fin 0.01))) = Some (Fin 0)"
    unfolding kp by blast
  from w hf lf cf
  have zf: "zakatableAmount (fundAmountMap [example_fund_row ''voo'' []])
       (example_fund ''VOO'' (Some (Fin 0.008)) (Some (Fin 0.8))) = Some (Fin 0)"
    unfolding kf by blast
  from hp hf lp lf zp zf show ?thesis by blast
qed

section \<open>Fund aggregator\<close>

text \<open>
  Claim C2. The extrapolated ratio of a fund is the aggregate ratio divided by the
  weight coverage when both are present and the coverage is greater than \<open>0\<close>. It is
  unknown when the aggregate ratio is absent, or the coverage is absent, \<open>0\<close>, or not
  greater than \<open>0\<close>; and when it is unknown, so are the fund's zakatable amount and its
  zakat due, whatever the ledger holds.
\<close>

theorem extrapolated_ratio_needs_positive_coverage:
  "(aggregate_cri_to_market_price_ratio fund = Some a \<and> total_weight_covered fund = Some w
      \<and> num_gt w (Fin 0) \<longrightarrow>
      extrapolatedCriRatio fund = Some (num_div a w))
   \<and> (aggregate_cri_to_market_price_ratio fund = None \<or> total_weight_covered fund = None
      \<or> total_weight_covered fund = Some (Fin 0)
      \<or> (\<exists>v. total_weight_covered fund = Some v \<and> \<not> num_gt v (Fin 0)) \<longrightarrow>
      extrapolatedCriRatio fund = None)
   \<and> (extrapolatedCriRatio fund = None \<longrightarrow>
      zakatableAmount amountMap fund = None \<and> zakatDue amountMap fund = None)"
  by (auto simp: extrapolatedCriRatio_def zakatableAmount_def zakatDue_def num_gt_def
      split: option.splits)

theorem extrapolated_ratio_witness:
  "num_gt (Fin 0.8) (Fin 0)
   \<and> extrapolatedCriRatio (example_fund ''VOO'' (Some (Fin 0.008)) (Some (Fin 0.8)))
       = Some (Fin 0.01)
   \<and> extrapolatedCriRatio (example_fund ''VOO'' (Some (Fin 0.008)) (Some (Fin 0))) = None
   \<and> zakatableAmount (fundAmountMap [example_fund_row ''voo'' ''50000''])
       (example_fund ''VOO'' (Some (Fin 0.008)) (Some (Fin 0))) = None
   \<and> zakatDue (fundAmountMap [example_fund_row ''voo'' ''50000''])
       (example_fund ''VOO'' (Some (Fin 0.008)) (Some (Fin 0))) = None"
  using extrapolated_ratio_needs_positive_coverage
          [of "example_fund ''VOO'' (Some (Fin 0.008)) (Some (Fin 0.8))" "Fin 0.008" "Fin 0.8"]
        extrapolated_ratio_needs_positive_coverage
          [of "example_fund ''VOO'' (Some (Fin 0.008)) (Some (Fin 0))" _ _
              "fundAmountMap [example_fund_row ''voo'' ''50000'']"]
  by (simp add: example_fund_def num_gt_def round_num_small)

section \<open>CSV serialization\<close>

lemma needs_quoting_double_quotes: "needs_quoting (double_quotes s) = needs_quoting s"
  by (induction s) (auto simp: needs_quoting_def double_quotes_def dquote_def comma_def newline_def)

lemma double_quotes_unchanged: "dquote \<notin> set s \<Longrightarrow> double_quotes s = s"
  by (induction s) (auto simp: double_quotes_def)

text \<open>How \<open>double_quotes\<close> doubles: piece by piece, a quote becomes two, any other character stays.\<close>

lemma double_quotes_append: "double_quotes (s @ t) = double_quotes s @ double_quotes t"
  by (simp add: double_quotes_def)

lemma double_quotes_Cons:
  "double_quotes (c # s) = (if c = dquote then [dquote, dquote] else [c]) @ double_quotes s"
  by (simp add: double_quotes_def)

text \<open>
  Claim C6 says that a field with a line break is written between double quotes. The
  test is \<^verbatim>\<open>/[",\n]/\<close>, which knows the line feed alone: a field whose line break is
  a carriage return is written as it is, and so is the file that contains it.
\<close>

theorem carriage_return_field_written_unquoted:
  "sanitizeCsvValue (Some (''a'' @ [carriage_return] @ ''b'')) = ''a'' @ [carriage_return] @ ''b''
   \<and> createCsvContent [''Note''] [[''a'' @ [carriage_return] @ ''b'']] =
       ''Note'' @ [newline] @ ''a'' @ [carriage_return] @ ''b''"
  by (simp add: createCsvContent_def sanitizeCsvValue_def double_quotes_def needs_quoting_def
      dquote_def comma_def newline_def carriage_return_def)

text \<open>
  Claim C6, amended. A field that contains a comma, a double quote or a line feed is
  written between double quotes with each of its double quotes doubled; any other
  field, one with a carriage return included, is written as it is. Every header and
  every cell of the file is written in this way, the fields of a row joined by commas
  and the rows by line feeds. The field \<^verbatim>\<open>Acme, Inc. "East"\<close> is written
  \<^verbatim>\<open>"Acme, Inc. ""East"""\<close>.
\<close>

theorem sanitizeCsvValue_quotes_when_needed:
  "sanitizeCsvValue (Some s) =
     (if (\<exists>c \<in> set s. c = comma \<or> c = dquote \<or> c = newline)
      then [dquote] @ double_quotes s @ [dquote]
      else s)
   \<and> double_quotes [] = []
   \<and> double_quotes (x # s) = (if x = dquote then [dquote, dquote] else [x]) @ double_quotes s
   \<and> createCsvContent headers rows =
       join [newline]
         (map (\<lambda>row. join [comma]
                 (map (\<lambda>v. if (\<exists>c \<in> set v. c = comma \<or> c = dquote \<or> c = newline)
                            then [dquote] @ double_quotes v @ [dquote]
                            else v) row))
            (headers # rows))
   \<and> sanitizeCsvValue (Some (''Acme, Inc. '' @ [dquote] @ ''East'' @ [dquote]))
       = [dquote] @ ''Acme, Inc. '' @ [dquote, dquote] @ ''East'' @ [dquote, dquote] @ [dquote]
   \<and> createCsvContent [''Company'', ''Note'']
        [[''Acme, Inc. '' @ [dquote] @ ''East'' @ [dquote], ''ok'']]
       = ''Company,Note'' @ [newline]
         @ [dquote] @ ''Acme, Inc. '' @ [dquote, dquote] @ ''East'' @ [dquote, dquote] @ [dquote]
         @ '',ok''"
proof -
  have field: "sanitizeCsvValue (Some v) =
     (if (\<exists>c \<in> set v. c = comma \<or> c = dquote \<or> c = newline)
      then [dquote] @ double_quotes v @ [dquote]
      else v)" for v
  proof -
    have q: "needs_quoting v \<longleftrightarrow> (\<exists>c \<in> set v. c = comma \<or> c = dquote \<or> c = newline)"
      by (auto simp: needs_quoting_def list_ex_iff)
    show ?thesis
    proof (cases "needs_quoting v")
      case True
      then show ?thesis
        using q by (simp add: sanitizeCsvValue_def needs_quoting_double_quotes)
    next
      case False
      with q have "dquote \<notin> set v" by auto
      with False show ?thesis
        using q
        by (simp add: sanitizeCsvValue_def needs_quoting_double_quotes double_quotes_unchanged)
    qed
  qed
  have content: "createCsvContent headers rows =
       join [newline]
         (map (\<lambda>row. join [comma]
                 (map (\<lambda>v. if (\<exists>c \<in> set v. c = comma \<or> c = dquote \<or> c = newline)
                            then [dquote] @ double_quotes v @ [dquote]
                            else v) row))
            (headers # rows))"
    unfolding createCsvContent_def by (simp only: field)
  have acme: "sanitizeCsvValue (Some (''Acme, Inc. '' @ [dquote] @ ''East'' @ [dquote]))
       = [dquote] @ ''Acme, Inc. '' @ [dquote, dquote] @ ''East'' @ [dquote, dquote] @ [dquote]"
    by (simp add: sanitizeCsvValue_def double_quotes_def needs_quoting_def dquote_def comma_def
        newline_def)
  have acme_file: "createCsvContent [''Company'', ''Note'']
        [[''Acme, Inc. '' @ [dquote] @ ''East'' @ [dquote], ''ok'']]
       = ''Company,Note'' @ [newline]
         @ [dquote] @ ''Acme, Inc. '' @ [dquote, dquote] @ ''East'' @ [dquote, dquote] @ [dquote]
         @ '',ok''"
    by (simp add: createCsvContent_def sanitizeCsvValue_def double_quotes_def needs_quoting_def
        dquote_def comma_def newline_def)
  from field [of s] content acme acme_file double_quotes_Cons [of x s]
  show ?thesis by (simp add: double_quotes_def)
qed

theorem sanitizeCsvValue_witness:
  "sanitizeCsvValue (Some ''a,b'') = [dquote] @ ''a,b'' @ [dquote]
   \<and> sanitizeCsvValue (Some ''AAPL'') = ''AAPL''
   \<and> createCsvContent [''A'', ''B''] [[''a,b'', ''AAPL'']] =
       ''A,B'' @ [newline] @ [dquote] @ ''a,b'' @ [dquote] @ '',AAPL''"
  using sanitizeCsvValue_quotes_when_needed [of "''a,b''"]
        sanitizeCsvValue_quotes_when_needed [of "''AAPL''" _ "[''A'', ''B'']" "[[''a,b'', ''AAPL'']]"]
  by (simp add: double_quotes_def dquote_def comma_def newline_def)

section \<open>Column registry\<close>

lemma is_visible_toggle:
  "is_visible (columnVisibilityChange columns X v config) c =
     (if col_id c = X then v else is_visible config c)"
  by (simp add: is_visible_def columnVisibilityChange_def Let_def)

lemma visibleColumns_toggle_off:
  "visibleColumns columns (columnVisibilityChange columns X False config) =
     filter (\<lambda>c. col_id c \<noteq> X) (visibleColumns columns config)"
  by (simp add: visibleColumns_def) (rule filter_cong, auto simp: is_visible_toggle)

lemma visibleColumns_toggle_on_after_off:
  "visibleColumns columns
     (columnVisibilityChange columns X True (columnVisibilityChange columns X False config)) =
   visibleColumns columns (columnVisibilityChange columns X True config)"
  unfolding visibleColumns_def by (rule filter_cong) (auto simp: is_visible_toggle)

lemma visibleColumns_toggle_restores:
  assumes "\<forall>c \<in> set columns. col_id c = X \<longrightarrow> is_visible config c"
  shows "visibleColumns columns
           (columnVisibilityChange columns X True (columnVisibilityChange columns X False config)) =
         visibleColumns columns config"
  unfolding visibleColumns_def using assms by (intro filter_cong) (auto simp: is_visible_toggle)

lemma portfolioColumns_ids:
  "map col_id (portfolioColumns h m) =
     [''ticker'', ''company'', ''currency'', ''cash'', ''receivables'', ''inventories'',
      ''market_price'', ''shares'', ''cri_per_share'', ''cri_ratio'', ''zakatable_amount'',
      ''zakat_due'']"
  by (simp add: portfolioColumns_def)

lemma fundHoldingColumns_ids:
  "map col_id (fundHoldingColumns h) =
     [''holding'', ''weight'', ''cash'', ''receivables'', ''inventories'', ''market_price'',
      ''shares'', ''cri_per_share'', ''cri_ratio'']"
  by (simp add: fundHoldingColumns_def)

text \<open>
  Claim C8. The visible columns are a subsequence of the column definitions, in
  definition order, and hold exactly the definitions whose setting is visible (a column
  without a setting counts as visible). Switching column \<open>X\<close> off removes the columns
  with id \<open>X\<close> from the visible ones and keeps the others in their order. Switching
  \<open>X\<close> on again gives the visible columns of switching it on directly; when \<open>X\<close> was
  visible before, these are the visible columns from before, with \<open>X\<close> at its old place.
  This holds for the portfolio table and for the fund holdings table.
\<close>

theorem visible_columns_keep_definition_order:
  "subseq (visiblePortfolioColumns h st)
     (portfolioColumns h (portfolioAmountMap (portfolioRows st)))
   \<and> set (visiblePortfolioColumns h st) =
       {c \<in> set (portfolioColumns h (portfolioAmountMap (portfolioRows st))).
          is_visible (portfolioColumnConfig st) c}
   \<and> visiblePortfolioColumns h (handlePortfolioColumnVisibilityChange h X False st) =
       filter (\<lambda>c. col_id c \<noteq> X) (visiblePortfolioColumns h st)
   \<and> visiblePortfolioColumns h
       (handlePortfolioColumnVisibilityChange h X True
          (handlePortfolioColumnVisibilityChange h X False st)) =
       visiblePortfolioColumns h (handlePortfolioColumnVisibilityChange h X True st)
   \<and> ((\<forall>c \<in> set (portfolioColumns h (portfolioAmountMap (portfolioRows st))).
          col_id c = X \<longrightarrow> is_visible (portfolioColumnConfig st) c) \<longrightarrow>
       visiblePortfolioColumns h
         (handlePortfolioColumnVisibilityChange h X True
            (handlePortfolioColumnVisibilityChange h X False st)) =
       visiblePortfolioColumns h st)
   \<and> subseq (visibleFundHoldingColumns h st) (fundHoldingColumns h)
   \<and> set (visibleFundHoldingColumns h st) =
       {c \<in> set (fundHoldingColumns h). is_visible (fundHoldingColumnConfig st) c}
   \<and> visibleFundHoldingColumns h (handleFundColumnVisibilityChange h X False st) =
       filter (\<lambda>c. col_id c \<noteq> X) (visibleFundHoldingColumns h st)
   \<and> visibleFundHoldingColumns h
       (handleFundColumnVisibilityChange h X True (handleFundColumnVisibilityChange h X False st)) =
       visibleFundHoldingColumns h (handleFundColumnVisibilityChange h X True st)
   \<and> ((\<forall>c \<in> set (fundHoldingColumns h). col_id c = X \<longrightarrow> is_visible (fundHoldingColumnConfig st) c)
       \<longrightarrow>
       visibleFundHoldingColumns h
         (handleFundColumnVisibilityChange h X True (handleFundColumnVisibilityChange h X False st)) =
       visibleFundHoldingColumns h st)"
proof -
  let ?pc = "portfolioColumns h (portfolioAmountMap (portfolioRows st))"
  have p1: "subseq (visiblePortfolioColumns h st) ?pc"
    by (simp add: visiblePortfolioColumns_def visibleColumns_def)
  have p2: "set (visiblePortfolioColumns h st) = {c \<in> set ?pc. is_visible (portfolioColumnConfig st) c}"
    by (simp add: visiblePortfolioColumns_def visibleColumns_def)
  have p3: "visiblePortfolioColumns h (handlePortfolioColumnVisibilityChange h X False st) =
       filter (\<lambda>c. col_id c \<noteq> X) (visiblePortfolioColumns h st)"
    by (simp add: visiblePortfolioColumns_def handlePortfolioColumnVisibilityChange_def
        visibleColumns_toggle_off)
  have p4: "visiblePortfolioColumns h
       (handlePortfolioColumnVisibilityChange h X True
          (handlePortfolioColumnVisibilityChange h X False st)) =
       visiblePortfolioColumns h (handlePortfolioColumnVisibilityChange h X True st)"
    by (simp add: visiblePortfolioColumns_def handlePortfolioColumnVisibilityChange_def
        visibleColumns_toggle_on_after_off)
  have p5: "visiblePortfolioColumns h
         (handlePortfolioColumnVisibilityChange h X True
            (handlePortfolioColumnVisibilityChange h X False st)) =
       visiblePortfolioColumns h st"
    if "\<forall>c \<in> set ?pc. col_id c = X \<longrightarrow> is_visible (portfolioColumnConfig st) c"
    using visibleColumns_toggle_restores [OF that]
    by (simp add: visiblePortfolioColumns_def handlePortfolioColumnVisibilityChange_def)
  have f1: "subseq (visibleFundHoldingColumns h st) (fundHoldingColumns h)"
    by (simp add: visibleFundHoldingColumns_def visibleColumns_def)
  have f2: "set (visibleFundHoldingColumns h st) =
       {c \<in> set (fundHoldingColumns h). is_visible (fundHoldingColumnConfig st) c}"
    by (simp add: visibleFundHoldingColumns_def visibleColumns_def)
  have f3: "visibleFundHoldingColumns h (handleFundColumnVisibilityChange h X False st) =
       filter (\<lambda>c. col_id c \<noteq> X) (visibleFundHoldingColumns h st)"
    by (simp add: visibleFundHoldingColumns_def handleFundColumnVisibilityChange_def
        visibleColumns_toggle_off)
  have f4: "visibleFundHoldingColumns h
       (handleFundColumnVisibilityChange h X True (handleFundColumnVisibilityChange h X False st)) =
       visibleFundHoldingColumns h (handleFundColumnVisibilityChange h X True st)"
    by (simp add: visibleFundHoldingColumns_def handleFundColumnVisibilityChange_def
        visibleColumns_toggle_on_after_off)
  have f5: "visibleFundHoldingColumns h
         (handleFundColumnVisibilityChange h X True (handleFundColumnVisibilityChange h X False st)) =
       visibleFundHoldingColumns h st"
    if "\<forall>c \<in> set (fundHoldingColumns h). col_id c = X \<longrightarrow> is_visible (fundHoldingColumnConfig st) c"
    using visibleColumns_toggle_restores [OF that]
    by (simp add: visibleFundHoldingColumns_def handleFundColumnVisibilityChange_def)
  from p1 p2 p3 p4 p5 f1 f2 f3 f4 f5 show ?thesis by blast
qed

text \<open>Every setting made by \<open>initialColumnConfig\<close> is visible, so at first every column is.\<close>

lemma foldl_default_visible:
  "(\<And>i k. m i = Some k \<Longrightarrow> visible k) \<Longrightarrow>
   foldl (\<lambda>m column. m(col_id column \<mapsto> default_config column)) m columns i = Some k \<Longrightarrow>
   visible k"
proof (induction columns arbitrary: m)
  case Nil
  then show ?case by simp
next
  case (Cons c columns)
  show ?case
  proof (rule Cons.IH [of "m(col_id c \<mapsto> default_config c)"])
    fix j l
    assume "(m(col_id c \<mapsto> default_config c)) j = Some l"
    then show "visible l"
      using Cons.prems(1) by (auto simp: default_config_def split: if_splits)
  next
    show "foldl (\<lambda>m column. m(col_id column \<mapsto> default_config column))
            (m(col_id c \<mapsto> default_config c)) columns i = Some k"
      using Cons.prems(2) by (simp only: foldl_Cons)
  qed
qed

lemma is_visible_initial: "is_visible (initialColumnConfig columns') c"
proof (cases "initialColumnConfig columns' (col_id c)")
  case None
  then show ?thesis by (simp add: is_visible_def)
next
  case (Some k)
  then have "visible k"
    unfolding initialColumnConfig_def by (rule foldl_default_visible [rotated]) simp
  with Some show ?thesis by (simp add: is_visible_def)
qed

lemma visibleColumns_initial: "visibleColumns columns (initialColumnConfig columns') = columns"
  by (simp add: visibleColumns_def is_visible_initial)

lemma visibleColumns_toggle_off_initial:
  "visibleColumns columns (columnVisibilityChange columns X False (initialColumnConfig columns')) =
     filter (\<lambda>c. col_id c \<noteq> X) columns"
  by (simp add: visibleColumns_toggle_off visibleColumns_initial)

theorem visible_columns_witness:
  "map col_id (visiblePortfolioColumns example_host
        (handlePortfolioColumnVisibilityChange example_host ''cash'' False
           (initial_state example_host))) =
       [''ticker'', ''company'', ''currency'', ''receivables'', ''inventories'',
        ''market_price'', ''shares'', ''cri_per_share'', ''cri_ratio'', ''zakatable_amount'',
        ''zakat_due'']
   \<and> map col_id (visiblePortfolioColumns example_host
        (handlePortfolioColumnVisibilityChange example_host ''cash'' True
           (handlePortfolioColumnVisibilityChange example_host ''cash'' False
              (initial_state example_host)))) =
       [''ticker'', ''company'', ''currency'', ''cash'', ''receivables'', ''inventories'',
        ''market_price'', ''shares'', ''cri_per_share'', ''cri_ratio'', ''zakatable_amount'',
        ''zakat_due'']
   \<and> map col_id (visibleFundHoldingColumns example_host
        (handleFundColumnVisibilityChange example_host ''weight'' True
           (handleFundColumnVisibilityChange example_host ''weight'' False
              (initial_state example_host)))) =
       [''holding'', ''weight'', ''cash'', ''receivables'', ''inventories'', ''market_price'',
        ''shares'', ''cri_per_share'', ''cri_ratio'']"
proof -
  have v: "visiblePortfolioColumns example_host (initial_state example_host) =
           portfolioColumns example_host
             (portfolioAmountMap (portfolioRows (initial_state example_host)))"
    by (simp add: visiblePortfolioColumns_def initial_state_def visibleColumns_initial)
  have w: "visibleFundHoldingColumns example_host (initial_state example_host) =
           fundHoldingColumns example_host"
    by (simp add: visibleFundHoldingColumns_def initial_state_def visibleColumns_initial)
  have a: "\<And>c. is_visible (portfolioColumnConfig (initial_state example_host)) c"
    by (simp add: initial_state_def is_visible_initial)
  have b: "\<And>c. is_visible (fundHoldingColumnConfig (initial_state example_host)) c"
    by (simp add: initial_state_def is_visible_initial)
  have ids: "map col_id (filter (\<lambda>c. col_id c \<noteq> ''cash'')
               (portfolioColumns example_host
                  (portfolioAmountMap (portfolioRows (initial_state example_host))))) =
       [''ticker'', ''company'', ''currency'', ''receivables'', ''inventories'',
        ''market_price'', ''shares'', ''cri_per_share'', ''cri_ratio'', ''zakatable_amount'',
        ''zakat_due'']"
    by (simp add: portfolioColumns_def)
  note p = visible_columns_keep_definition_order
             [of example_host "initial_state example_host" "''cash''"]
  note f = visible_columns_keep_definition_order
             [of example_host "initial_state example_host" "''weight''"]
  from p have off: "visiblePortfolioColumns example_host
        (handlePortfolioColumnVisibilityChange example_host ''cash'' False
           (initial_state example_host)) =
      filter (\<lambda>c. col_id c \<noteq> ''cash'')
        (visiblePortfolioColumns example_host (initial_state example_host))"
    by blast
  from p a have on: "visiblePortfolioColumns example_host
        (handlePortfolioColumnVisibilityChange example_host ''cash'' True
           (handlePortfolioColumnVisibilityChange example_host ''cash'' False
              (initial_state example_host))) =
      visiblePortfolioColumns example_host (initial_state example_host)"
    by blast
  from f b have fon: "visibleFundHoldingColumns example_host
        (handleFundColumnVisibilityChange example_host ''weight'' True
           (handleFundColumnVisibilityChange example_host ''weight'' False
              (initial_state example_host))) =
      visibleFundHoldingColumns example_host (initial_state example_host)"
    by blast
  show ?thesis
    by (simp add: off on fon v w a b ids portfolioColumns_ids fundHoldingColumns_ids)
qed

section \<open>CSV export and the tables\<close>

lemma map2_map_same: "map2 f (map g xs) xs = map (\<lambda>x. f (g x) x) xs"
  by (induction xs) simp_all

text \<open>
  The portfolio export and the portfolio table use the same columns, and every
  portfolio column exports the value it displays.
\<close>

lemma portfolioExportColumns_visible: "portfolioExportColumns h st = visiblePortfolioColumns h st"
  by (simp add: portfolioExportColumns_def visiblePortfolioColumns_def visibleColumns_def)

lemma portfolio_export_value_is_cell:
  "column \<in> set (portfolioColumns h m) \<Longrightarrow> getExportValue column = renderCell column"
  by (auto simp: portfolioColumns_def)

lemma fund_export_value_is_cell:
  "column \<in> set (fundHoldingColumns h) \<Longrightarrow> getExportValue column = renderCell column"
  by (auto simp: fundHoldingColumns_def)

lemma portfolio_export_rows_are_table_rows:
  "renderPortfolioTable h st = Table hs rows \<Longrightarrow>
   portfolioExportHeaders h st = hs @ [''Warnings'']
   \<and> portfolioExportRows h st =
       map2 (\<lambda>cells c. cells @ [join '' '' (warnings c)]) rows (portfolioResult st)"
proof -
  assume t: "renderPortfolioTable h st = Table hs rows"
  have sub: "set (visiblePortfolioColumns h st)
             \<subseteq> set (portfolioColumns h (portfolioAmountMap (portfolioRows st)))"
    by (simp add: visiblePortfolioColumns_def visibleColumns_def)
  have same: "map (\<lambda>column. getExportValue column c) (visiblePortfolioColumns h st) =
              map (\<lambda>column. renderCell column c) (visiblePortfolioColumns h st)" for c
    using sub portfolio_export_value_is_cell by (intro map_cong) auto
  from t have hs: "hs = map label (visiblePortfolioColumns h st)"
    and rows: "rows = map (\<lambda>c. map (\<lambda>column. renderCell column c) (visiblePortfolioColumns h st))
                        (portfolioResult st)"
    by (auto simp: renderPortfolioTable_def Let_def split: if_splits)
  show ?thesis
    by (simp add: portfolioExportHeaders_def portfolioExportRows_def portfolioExportColumns_visible
        hs rows same map2_map_same)
qed

lemma initial_ledger_empty: "portfolioAmountMap (portfolioRows (initial_state h)) = Map.empty"
  by (simp add: initial_state_def portfolioAmountMap_def ledger_step_def ledger_key_def
      trim_def toUpperCase_def)

lemma example_timestamp: "buildFilenameTimestamp example_host None = ''2025-01-01T00-00-00.000Z''"
  by (simp add: buildFilenameTimestamp_def example_host_def replace_colons_def)

text \<open>
  Claim C3 holds for the portfolio table (\<open>portfolio_export_rows_are_table_rows\<close>) and
  fails for the holdings table of a fund: \<^verbatim>\<open>handleDownloadFundHoldings\<close> writes its own
  fifteen columns whatever the column settings are. With the column Cash switched off,
  the table shows eight columns without Cash, and the file still has the column Cash
  (and the columns Ticker, Name, ISIN and CUSIP, which the table never shows); the
  file is the same for every column setting.
\<close>

theorem fund_export_ignores_column_settings:
  "map label (visibleFundHoldingColumns example_host cash_hidden_state) =
     [''Holding'', ''Weight'', ''Receivables'', ''Inventories'', ''Market Price'',
      ''Shares Used'', ''CRI per Share'', ''CRI / Price'']
   \<and> handleDownloadFundHoldings example_host cash_hidden_state example_fund_with_holding =
       Some (''voo-holdings-2025-01-01t00-00-00.000z.csv'',
             createCsvContent
               [''Holding'', ''Ticker'', ''Name'', ''ISIN'', ''CUSIP'', ''Weight'', ''Cash'',
                ''Receivables'', ''Inventories'', ''Market Price'', ''Shares'', ''CRI per Share'',
                ''CRI / Price'', ''Holding Warnings'', ''Company Warnings'']
               [[''AAPL'', ''AAPL'', em_dash, em_dash, em_dash, ''#%'', em_dash, em_dash, em_dash,
                 em_dash, em_dash, em_dash, ''N/A'', [], []]])
   \<and> handleDownloadFundHoldings h (st\<lparr>fundHoldingColumnConfig := config\<rparr>) fund =
       handleDownloadFundHoldings h st fund"
proof -
  have vis: "visibleFundHoldingColumns example_host cash_hidden_state =
             filter (\<lambda>c. col_id c \<noteq> ''cash'') (fundHoldingColumns example_host)"
    by (simp add: visibleFundHoldingColumns_def cash_hidden_state_def
        handleFundColumnVisibilityChange_def initial_state_def visibleColumns_toggle_off_initial)
  have labels: "map label (visibleFundHoldingColumns example_host cash_hidden_state) =
     [''Holding'', ''Weight'', ''Receivables'', ''Inventories'', ''Market Price'',
      ''Shares Used'', ''CRI per Share'', ''CRI / Price'']"
    by (simp add: vis fundHoldingColumns_def)
  have gen: "fundGeneratedAt cash_hidden_state = None"
    by (simp add: cash_hidden_state_def handleFundColumnVisibilityChange_def initial_state_def)
  have row: "\<And>x. fundExportRow example_host (example_holding ''AAPL'' (Some (Fin x))) =
     [''AAPL'', ''AAPL'', em_dash, em_dash, em_dash, ''#%'', em_dash, em_dash, em_dash,
      em_dash, em_dash, em_dash, ''N/A'', [], []]"
    by (simp add: fundExportRow_def example_holding_def or_else_def company_field_def
        formatNumber_def formatRatio_def example_host_def round_num_small)
  have lower: "toLowerCase (''VOO'' @ ''-holdings-'' @ ''2025-01-01T00-00-00.000Z'' @ ''.csv'') =
               ''voo-holdings-2025-01-01t00-00-00.000z.csv''"
    by (simp add: string_defs)
  have out: "handleDownloadFundHoldings example_host cash_hidden_state example_fund_with_holding =
       Some (''voo-holdings-2025-01-01t00-00-00.000z.csv'',
             createCsvContent
               [''Holding'', ''Ticker'', ''Name'', ''ISIN'', ''CUSIP'', ''Weight'', ''Cash'',
                ''Receivables'', ''Inventories'', ''Market Price'', ''Shares'', ''CRI per Share'',
                ''CRI / Price'', ''Holding Warnings'', ''Company Warnings'']
               [[''AAPL'', ''AAPL'', em_dash, em_dash, em_dash, ''#%'', em_dash, em_dash, em_dash,
                 em_dash, em_dash, em_dash, ''N/A'', [], []]])"
    using lower
    by (simp add: handleDownloadFundHoldings_def example_fund_with_holding_def example_fund_def
        gen example_timestamp row fundExportHeaders_def Let_def)
  have any: "handleDownloadFundHoldings h (st\<lparr>fundHoldingColumnConfig := config\<rparr>) fund =
       handleDownloadFundHoldings h st fund"
    by (simp add: handleDownloadFundHoldings_def)
  from labels out any show ?thesis by blast
qed

text \<open>Switching columns off one after the other removes them all from the visible ones.\<close>

lemma visibleColumns_toggle_off_list:
  "visibleColumns columns
     (foldl (\<lambda>config i. columnVisibilityChange columns i False config) config ids) =
   filter (\<lambda>c. col_id c \<notin> set ids) (visibleColumns columns config)"
proof (induction ids arbitrary: config)
  case Nil
  then show ?case by simp
next
  case (Cons i ids)
  show ?case
    by (simp add: Cons.IH visibleColumns_toggle_off)
qed

lemma portfolio_toggle_list:
  "foldl (\<lambda>s i. handlePortfolioColumnVisibilityChange h i False s) st ids =
   st\<lparr>portfolioColumnConfig :=
        foldl (\<lambda>config i.
                 columnVisibilityChange (portfolioColumns h (portfolioAmountMap (portfolioRows st)))
                   i False config)
          (portfolioColumnConfig st) ids\<rparr>"
proof (induction ids arbitrary: st)
  case Nil
  then show ?case by simp
next
  case (Cons i ids)
  let ?st = "handlePortfolioColumnVisibilityChange h i False st"
  have "foldl (\<lambda>s i. handlePortfolioColumnVisibilityChange h i False s) st (i # ids) =
        foldl (\<lambda>s i. handlePortfolioColumnVisibilityChange h i False s) ?st ids"
    by simp
  also have "\<dots> = ?st\<lparr>portfolioColumnConfig :=
        foldl (\<lambda>config i.
                 columnVisibilityChange (portfolioColumns h (portfolioAmountMap (portfolioRows ?st)))
                   i False config)
          (portfolioColumnConfig ?st) ids\<rparr>"
    by (rule Cons.IH)
  also have "\<dots> = st\<lparr>portfolioColumnConfig :=
        foldl (\<lambda>config i.
                 columnVisibilityChange (portfolioColumns h (portfolioAmountMap (portfolioRows st)))
                   i False config)
          (portfolioColumnConfig st) (i # ids)\<rparr>"
    by (simp add: handlePortfolioColumnVisibilityChange_def)
  finally show ?case .
qed

lemma all_hidden_visible: "visiblePortfolioColumns example_host all_hidden_state = []"
proof -
  have "visiblePortfolioColumns example_host all_hidden_state =
        filter (\<lambda>c. col_id c \<notin> set (map col_id (portfolioColumns example_host Map.empty)))
          (portfolioColumns example_host Map.empty)"
    by (simp add: all_hidden_state_def portfolio_toggle_list visiblePortfolioColumns_def
        initial_ledger_empty visibleColumns_toggle_off_list)
       (simp add: initial_state_def visibleColumns_initial)
  then show ?thesis by simp
qed

lemma all_hidden_result: "portfolioResult all_hidden_state = [example_company_with_warnings]"
  by (simp add: all_hidden_state_def portfolio_toggle_list)

lemma all_hidden_generated: "portfolioGeneratedAt all_hidden_state = None"
  by (simp add: all_hidden_state_def portfolio_toggle_list initial_state_def)

text \<open>
  Claim C9 says that an export with no visible column is header-only and that the
  caller shows a "nothing selected" state instead of writing a file. With one company
  in the table and every column switched off, the table area shows the notice, and the
  download handler still writes a file, which has a data row: the header
  \<^verbatim>\<open>Warnings\<close> and a line with the company's warnings.
\<close>

theorem export_without_columns_writes_warnings_rows:
  "visiblePortfolioColumns example_host all_hidden_state = []
   \<and> renderPortfolioTable example_host all_hidden_state =
       Notice ''Select at least one column to display results.''
   \<and> handleDownloadPortfolio example_host all_hidden_state =
       Some (''portfolio-valuations-2025-01-01T00-00-00.000Z.csv'',
             ''Warnings'' @ [newline] @ ''No filing found. Price is stale.'')"
proof -
  have n: "renderPortfolioTable example_host all_hidden_state =
       Notice ''Select at least one column to display results.''"
    by (simp add: renderPortfolioTable_def all_hidden_visible)
  have csv: "createCsvContent [''Warnings''] [[''No filing found. Price is stale.'']] =
             ''Warnings'' @ [newline] @ ''No filing found. Price is stale.''"
    by (simp add: createCsvContent_def sanitizeCsvValue_def double_quotes_def needs_quoting_def
        dquote_def comma_def newline_def)
  have "handleDownloadPortfolio example_host all_hidden_state =
       Some (''portfolio-valuations-2025-01-01T00-00-00.000Z.csv'',
             ''Warnings'' @ [newline] @ ''No filing found. Price is stale.'')"
    using csv
    by (simp add: handleDownloadPortfolio_def all_hidden_result all_hidden_generated
        example_timestamp portfolioExportHeaders_def portfolioExportRows_def
        portfolioExportColumns_visible all_hidden_visible example_company_with_warnings_def
        example_company_def Let_def)
  with n all_hidden_visible show ?thesis by blast
qed

text \<open>
  Claim C9, amended. When no column is visible, the table area shows a notice in place
  of the table (\<open>Select at least one column to display results.\<close> for the portfolio,
  \<open>Select at least one column to display holdings.\<close> for a fund), and the rows that
  the portfolio export builds have no data column: the header is the single column
  \<open>Warnings\<close>, and there is one row per company, holding only the company's warnings
  joined by single spaces.
\<close>

theorem no_visible_column_notice_and_warnings_only:
  "(visiblePortfolioColumns h st = [] \<longrightarrow>
      renderPortfolioTable h st = Notice ''Select at least one column to display results.''
      \<and> portfolioExportHeaders h st = [''Warnings'']
      \<and> portfolioExportRows h st = map (\<lambda>c. [join '' '' (warnings c)]) (portfolioResult st))
   \<and> (visibleFundHoldingColumns h st = [] \<longrightarrow>
      renderFundHoldingsTable h st fund =
        Notice ''Select at least one column to display holdings.'')"
  by (simp add: renderPortfolioTable_def renderFundHoldingsTable_def portfolioExportHeaders_def
      portfolioExportRows_def portfolioExportColumns_visible)

theorem no_visible_column_witness:
  "visiblePortfolioColumns example_host all_hidden_state = []
   \<and> renderPortfolioTable example_host all_hidden_state =
       Notice ''Select at least one column to display results.''
   \<and> portfolioExportHeaders example_host all_hidden_state = [''Warnings'']
   \<and> portfolioExportRows example_host all_hidden_state = [[''No filing found. Price is stale.'']]"
  using no_visible_column_notice_and_warnings_only [of example_host all_hidden_state]
  by (simp add: all_hidden_visible all_hidden_result example_company_with_warnings_def
      example_company_def)

section \<open>The order of the holdings rows\<close>

lemma mset_insert_by: "mset (insert_by cmp x ys) = add_mset x (mset ys)"
  by (induction ys) simp_all

lemma mset_js_sort: "mset (js_sort cmp xs) = mset xs"
  by (induction xs) (simp_all add: js_sort_def mset_insert_by)

lemma set_insert_by: "set (insert_by cmp x ys) = insert x (set ys)"
  using mset_insert_by [of cmp x ys] by (metis set_mset_add_mset_insert set_mset_mset)

lemma set_js_sort: "set (js_sort cmp xs) = set xs"
  using mset_js_sort [of cmp xs] by (metis set_mset_mset)

text \<open>A rounded difference is positive exactly when the exact difference is.\<close>

lemma round_num_positive: "num_less (Fin 0) (round_num d) \<longleftrightarrow> 0 < d"
  using overflow_bound_pos by (auto simp: round_num_def)

text \<open>
  When neither weight is NaN, the comparator is positive, which sends \<open>a\<close> behind
  \<open>b\<close>, exactly when the weight of \<open>a\<close> (negative infinity if unknown) is less than
  that of \<open>b\<close>.
\<close>

lemma comparator_positive_iff:
  assumes "weight_or_neg_inf a \<noteq> NaN" "weight_or_neg_inf b \<noteq> NaN"
  shows "num_gt (weightComparator a b) (Fin 0) \<longleftrightarrow>
         num_less (weight_or_neg_inf a) (weight_or_neg_inf b)"
  using assms
  by (cases "weight_or_neg_inf a"; cases "weight_or_neg_inf b")
     (simp_all add: weightComparator_def num_sub_def num_gt_def round_num_positive)

lemma key_less_asym:
  "num_less a b \<Longrightarrow> \<not> num_less b a"
  by (cases a; cases b) auto

lemma key_not_less_trans:
  assumes "a \<noteq> NaN" "b \<noteq> NaN" "c \<noteq> NaN" "\<not> num_less a b" "\<not> num_less b c"
  shows "\<not> num_less a c"
  using assms by (cases a; cases b; cases c) auto

lemma key_not_NaN: "weight a \<noteq> Some NaN \<Longrightarrow> weight_or_neg_inf a \<noteq> NaN"
  by (cases "weight a") (auto simp: weight_or_neg_inf_def)

lemma sorted_insert_by:
  assumes "\<forall>h \<in> set (x # ys). weight h \<noteq> Some NaN"
    and "sorted_wrt (\<lambda>a b. \<not> num_less (weight_or_neg_inf a) (weight_or_neg_inf b)) ys"
  shows "sorted_wrt (\<lambda>a b. \<not> num_less (weight_or_neg_inf a) (weight_or_neg_inf b))
           (insert_by weightComparator x ys)"
  using assms
proof (induction ys)
  case Nil
  then show ?case by simp
next
  case (Cons y ys)
  have fx: "weight_or_neg_inf x \<noteq> NaN" and fy: "weight_or_neg_inf y \<noteq> NaN"
    using Cons.prems(1) by (simp_all add: key_not_NaN)
  show ?case
  proof (cases "num_gt (weightComparator x y) (Fin 0)")
    case True
    then have lt: "num_less (weight_or_neg_inf x) (weight_or_neg_inf y)"
      using comparator_positive_iff [OF fx fy] by simp
    have "sorted_wrt (\<lambda>a b. \<not> num_less (weight_or_neg_inf a) (weight_or_neg_inf b))
            (insert_by weightComparator x ys)"
      using Cons.IH Cons.prems by simp
    moreover have "\<forall>z \<in> set (insert_by weightComparator x ys).
                     \<not> num_less (weight_or_neg_inf y) (weight_or_neg_inf z)"
      using Cons.prems(2) lt by (auto simp: set_insert_by dest: key_less_asym)
    ultimately show ?thesis using True by simp
  next
    case False
    then have nlt: "\<not> num_less (weight_or_neg_inf x) (weight_or_neg_inf y)"
      using comparator_positive_iff [OF fx fy] by simp
    have "\<not> num_less (weight_or_neg_inf x) (weight_or_neg_inf z)" if "z \<in> set ys" for z
    proof -
      have fz: "weight_or_neg_inf z \<noteq> NaN"
        using Cons.prems(1) that by (simp add: key_not_NaN)
      have "\<not> num_less (weight_or_neg_inf y) (weight_or_neg_inf z)"
        using Cons.prems(2) that by simp
      with nlt show ?thesis
        using key_not_less_trans [OF fx fy fz] by blast
    qed
    with nlt Cons.prems(2) False show ?thesis by simp
  qed
qed

lemma sorted_js_sort:
  assumes "\<forall>h \<in> set xs. weight h \<noteq> Some NaN"
  shows "sorted_wrt (\<lambda>a b. \<not> num_less (weight_or_neg_inf a) (weight_or_neg_inf b))
           (js_sort weightComparator xs)"
  using assms
proof (induction xs)
  case Nil
  then show ?case by (simp add: js_sort_def)
next
  case (Cons x xs)
  have "sorted_wrt (\<lambda>a b. \<not> num_less (weight_or_neg_inf a) (weight_or_neg_inf b))
          (insert_by weightComparator x (js_sort weightComparator xs))"
  proof (rule sorted_insert_by)
    show "\<forall>h \<in> set (x # js_sort weightComparator xs). weight h \<noteq> Some NaN"
      using Cons.prems by (simp add: set_js_sort)
    show "sorted_wrt (\<lambda>a b. \<not> num_less (weight_or_neg_inf a) (weight_or_neg_inf b))
            (js_sort weightComparator xs)"
      using Cons.IH Cons.prems by simp
  qed
  then show ?case by (simp add: js_sort_def)
qed

text \<open>
  In a list in descending order, no known weight comes after an unknown one, unless a
  known weight is NaN or negative infinity.
\<close>

lemma unknown_weight_last:
  assumes "\<forall>h \<in> set xs. weight h \<noteq> Some NaN" "\<forall>h \<in> set xs. weight h \<noteq> Some NInf"
    and "sorted_wrt (\<lambda>a b. \<not> num_less (weight_or_neg_inf a) (weight_or_neg_inf b)) xs"
  shows "sorted_wrt (\<lambda>a b. weight a = None \<longrightarrow> weight b = None) xs"
proof (rule sorted_wrt_mono_rel [OF _ assms(3)])
  fix a b
  assume a: "a \<in> set xs" and b: "b \<in> set xs"
    and ge: "\<not> num_less (weight_or_neg_inf a) (weight_or_neg_inf b)"
  show "weight a = None \<longrightarrow> weight b = None"
  proof
    assume "weight a = None"
    then have nl: "\<not> num_less NInf (weight_or_neg_inf b)"
      using ge by (simp add: weight_or_neg_inf_def)
    show "weight b = None"
    proof (cases "weight b")
      case None
      then show ?thesis .
    next
      case (Some w)
      with assms(1,2) b have "w \<noteq> NaN" "w \<noteq> NInf" by auto
      then have "num_less NInf w" by (cases w) simp_all
      with Some nl show ?thesis by (simp add: weight_or_neg_inf_def)
    qed
  qed
qed

lemma slice_then_sort_result:
  "a < length s \<Longrightarrow>
   slice_then_sort a s = Some (length s, s @ [js_sort weightComparator (s ! a)])"
  by (simp add: slice_then_sort_def array_slice_def array_sort_def nth_append)

text \<open>
  Claim C7 says that every holding of unknown weight comes after all holdings of known
  weight. An unknown weight is compared as negative infinity, so a holding whose weight
  is the number \<^verbatim>\<open>-Infinity\<close> ties with it, and the stable sort keeps the two in the
  order of arrival: here the holding AAA of unknown weight stays in front of the
  holding EEE of known weight.
\<close>

theorem unknown_weight_before_negative_infinity:
  "map h_ticker (holdings example_fund_negative_infinity) = [Some ''AAA'', Some ''EEE'']
   \<and> map weight (holdings example_fund_negative_infinity) = [None, Some NInf]
   \<and> map h_ticker (sortedHoldings example_fund_negative_infinity) = [Some ''AAA'', Some ''EEE'']
   \<and> map weight (sortedHoldings example_fund_negative_infinity) = [None, Some NInf]"
  by (simp add: sortedHoldings_def js_sort_def example_fund_negative_infinity_def example_fund_def
      example_holding_def weightComparator_def weight_or_neg_inf_def num_sub_def num_gt_def)

text \<open>
  Claim C7, amended. For every fund none of whose known weights is NaN, the rows of the
  holdings table are the fund's holdings rearranged by weight in descending order: no
  row has a smaller weight than a later row, an unknown weight counting as negative
  infinity. When moreover no known weight is negative infinity, every holding of
  unknown weight comes after all holdings of known weight. The cell of an unknown
  weight reads \<open>N/A\<close>. The sort works on a copy: it leaves the store as it was and adds
  the sorted array at a new address, so the array \<^verbatim>\<open>fund.holdings\<close> holds the same
  sequence afterwards.
\<close>

theorem holdings_rows_sorted_by_weight_descending:
  assumes "\<forall>x \<in> set (holdings fund). weight x \<noteq> Some NaN"
  shows "mset (sortedHoldings fund) = mset (holdings fund)
     \<and> sorted_wrt (\<lambda>a b. \<not> num_less (weight_or_neg_inf a) (weight_or_neg_inf b))
         (sortedHoldings fund)
     \<and> ((\<forall>x \<in> set (holdings fund). weight x \<noteq> Some NInf) \<longrightarrow>
         sorted_wrt (\<lambda>a b. weight a = None \<longrightarrow> weight b = None) (sortedHoldings fund))
     \<and> (visibleFundHoldingColumns h st \<noteq> [] \<longrightarrow>
         renderFundHoldingsTable h st fund =
           Table (map label (visibleFundHoldingColumns h st))
             (map (\<lambda>x. map (\<lambda>column. renderCell column x) (visibleFundHoldingColumns h st))
                (sortedHoldings fund)))
     \<and> (weight x = None \<longrightarrow> renderCell (fundHoldingColumns h ! 1) x = ''N/A'')
     \<and> (a < length s \<and> s ! a = holdings fund \<longrightarrow>
         slice_then_sort a s = Some (length s, s @ [sortedHoldings fund])
         \<and> (s @ [sortedHoldings fund]) ! a = holdings fund)"
proof -
  have perm: "mset (sortedHoldings fund) = mset (holdings fund)"
    by (simp add: sortedHoldings_def mset_js_sort)
  have desc: "sorted_wrt (\<lambda>a b. \<not> num_less (weight_or_neg_inf a) (weight_or_neg_inf b))
         (sortedHoldings fund)"
    unfolding sortedHoldings_def using assms by (rule sorted_js_sort)
  have nan: "\<forall>x \<in> set (sortedHoldings fund). weight x \<noteq> Some NaN"
    using assms by (simp add: sortedHoldings_def set_js_sort)
  have last: "sorted_wrt (\<lambda>a b. weight a = None \<longrightarrow> weight b = None) (sortedHoldings fund)"
    if "\<forall>x \<in> set (holdings fund). weight x \<noteq> Some NInf"
  proof -
    from that have "\<forall>x \<in> set (sortedHoldings fund). weight x \<noteq> Some NInf"
      by (simp add: sortedHoldings_def set_js_sort)
    with nan show ?thesis using desc by (rule unknown_weight_last)
  qed
  have table: "renderFundHoldingsTable h st fund =
           Table (map label (visibleFundHoldingColumns h st))
             (map (\<lambda>x. map (\<lambda>column. renderCell column x) (visibleFundHoldingColumns h st))
                (sortedHoldings fund))"
    if "visibleFundHoldingColumns h st \<noteq> []"
    using that by (simp add: renderFundHoldingsTable_def Let_def)
  have cell: "renderCell (fundHoldingColumns h ! 1) x = ''N/A''" if "weight x = None"
    using that by (simp add: fundHoldingColumns_def)
  have copy: "slice_then_sort a s = Some (length s, s @ [sortedHoldings fund])
         \<and> (s @ [sortedHoldings fund]) ! a = holdings fund"
    if "a < length s \<and> s ! a = holdings fund"
    using that by (simp add: slice_then_sort_result sortedHoldings_def nth_append)
  from perm desc last table cell copy show ?thesis by blast
qed

theorem holdings_rows_sorted_witness:
  "map h_ticker (holdings example_fund_three_holdings) = [Some ''AAA'', Some ''BBB'', Some ''CCC'']
   \<and> map weight (sortedHoldings example_fund_three_holdings) = [Some (Fin 0.5), Some (Fin 0.2), None]
   \<and> map h_ticker (sortedHoldings example_fund_three_holdings) =
       [Some ''CCC'', Some ''BBB'', Some ''AAA'']
   \<and> slice_then_sort 0 [holdings example_fund_three_holdings] =
       Some (1, [holdings example_fund_three_holdings,
                 sortedHoldings example_fund_three_holdings])
   \<and> map h_ticker (sortedHoldings example_fund_positive_infinity) =
       [Some ''DDD'', Some ''BBB'', Some ''AAA'']"
proof -
  have nan: "\<forall>x \<in> set (holdings example_fund_three_holdings). weight x \<noteq> Some NaN"
    by (simp add: example_fund_three_holdings_def example_fund_def example_holding_def)
  have ninf: "\<forall>x \<in> set (holdings example_fund_three_holdings). weight x \<noteq> Some NInf"
    by (simp add: example_fund_three_holdings_def example_fund_def example_holding_def)
  have nan': "\<forall>x \<in> set (holdings example_fund_positive_infinity). weight x \<noteq> Some NaN"
    by (simp add: example_fund_positive_infinity_def example_fund_def example_holding_def)
  have sorted: "sortedHoldings example_fund_three_holdings =
        [example_holding ''CCC'' (Some (Fin 0.5)), example_holding ''BBB'' (Some (Fin 0.2)),
         example_holding ''AAA'' None]"
    by (simp add: sortedHoldings_def js_sort_def example_fund_three_holdings_def example_fund_def
        example_holding_def weightComparator_def weight_or_neg_inf_def num_sub_def num_gt_def
        round_num_small)
  have sorted': "sortedHoldings example_fund_positive_infinity =
        [example_holding ''DDD'' (Some PInf), example_holding ''BBB'' (Some (Fin 0.2)),
         example_holding ''AAA'' None]"
    by (simp add: sortedHoldings_def js_sort_def example_fund_positive_infinity_def
        example_fund_def example_holding_def weightComparator_def weight_or_neg_inf_def
        num_sub_def num_gt_def round_num_small)
  note t = holdings_rows_sorted_by_weight_descending [OF nan, of _ _ _ 0
            "[holdings example_fund_three_holdings]"]
  note u = holdings_rows_sorted_by_weight_descending [OF nan']
  from t ninf have "sorted_wrt (\<lambda>a b. weight a = None \<longrightarrow> weight b = None)
                      (sortedHoldings example_fund_three_holdings)"
    by blast
  with t u show ?thesis
    by (simp add: sorted sorted' slice_then_sort_result)
       (simp add: example_fund_three_holdings_def example_fund_def example_holding_def)
qed

section \<open>The two request modes\<close>

text \<open>
  What each handler leaves alone. A portfolio request, sent or settled, writes
  \<^verbatim>\<open>error\<close>, \<^verbatim>\<open>portfolioLoading\<close>, \<^verbatim>\<open>portfolioResult\<close> and
  \<^verbatim>\<open>portfolioGeneratedAt\<close> only; a fund request writes \<^verbatim>\<open>error\<close> and the three fund
  fields only.
\<close>

lemma portfolio_start_frame:
  "fund_side (fst (handlePortfolioSubmit_start st)) = fund_side st
   \<and> asOfDate (fst (handlePortfolioSubmit_start st)) = asOfDate st
   \<and> activeTab (fst (handlePortfolioSubmit_start st)) = activeTab st
   \<and> portfolioRows (fst (handlePortfolioSubmit_start st)) = portfolioRows st"
  by (simp add: handlePortfolioSubmit_start_def fund_side_def)

lemma portfolio_settle_frame:
  "fund_side (handlePortfolioSubmit_settle outcome st) = fund_side st
   \<and> asOfDate (handlePortfolioSubmit_settle outcome st) = asOfDate st
   \<and> activeTab (handlePortfolioSubmit_settle outcome st) = activeTab st
   \<and> portfolioRows (handlePortfolioSubmit_settle outcome st) = portfolioRows st"
  by (cases outcome) (simp_all add: handlePortfolioSubmit_settle_def fund_side_def)

lemma fund_start_frame:
  "portfolio_side (fst (handleFundFetch_start st)) = portfolio_side st
   \<and> asOfDate (fst (handleFundFetch_start st)) = asOfDate st
   \<and> activeTab (fst (handleFundFetch_start st)) = activeTab st
   \<and> fundRows (fst (handleFundFetch_start st)) = fundRows st"
  by (simp add: handleFundFetch_start_def portfolio_side_def)

lemma fund_settle_frame:
  "portfolio_side (handleFundFetch_settle outcome st) = portfolio_side st
   \<and> asOfDate (handleFundFetch_settle outcome st) = asOfDate st
   \<and> activeTab (handleFundFetch_settle outcome st) = activeTab st
   \<and> fundRows (handleFundFetch_settle outcome st) = fundRows st"
  by (cases outcome) (simp_all add: handleFundFetch_settle_def portfolio_side_def)

text \<open>
  Two states that agree on the date, the tab and the fund side still do so after the
  same event; and likewise for the portfolio side.
\<close>

lemma step_keeps_fund_agreement:
  assumes "asOfDate s = asOfDate t" "fund_side s = fund_side t"
  shows "asOfDate (step s e) = asOfDate (step t e) \<and> fund_side (step s e) = fund_side (step t e)"
proof (cases e)
  case PortfolioSubmit
  then show ?thesis using assms portfolio_start_frame by simp
next
  case (PortfolioSettled outcome)
  then show ?thesis using assms portfolio_settle_frame by simp
next
  case FundFetch
  then show ?thesis
    using assms by (simp add: handleFundFetch_start_def fund_side_def)
next
  case (FundSettled outcome)
  then show ?thesis
    using assms by (cases outcome) (simp_all add: handleFundFetch_settle_def fund_side_def)
next
  case (SetActiveTab x)
  then show ?thesis using assms by (simp add: fund_side_def)
next
  case (SetAsOfDate d)
  then show ?thesis using assms by (simp add: fund_side_def)
qed

lemma step_keeps_portfolio_agreement:
  assumes "asOfDate s = asOfDate t" "activeTab s = activeTab t"
    "portfolio_side s = portfolio_side t"
  shows "asOfDate (step s e) = asOfDate (step t e) \<and> activeTab (step s e) = activeTab (step t e)
         \<and> portfolio_side (step s e) = portfolio_side (step t e)"
proof (cases e)
  case PortfolioSubmit
  then show ?thesis
    using assms by (simp add: handlePortfolioSubmit_start_def portfolio_side_def)
next
  case (PortfolioSettled outcome)
  then show ?thesis
    using assms by (cases outcome) (simp_all add: handlePortfolioSubmit_settle_def portfolio_side_def)
next
  case FundFetch
  then show ?thesis using assms fund_start_frame by simp
next
  case (FundSettled outcome)
  then show ?thesis using assms fund_settle_frame by simp
next
  case (SetActiveTab x)
  then show ?thesis using assms by (simp add: portfolio_side_def)
next
  case (SetAsOfDate d)
  then show ?thesis using assms by (simp add: portfolio_side_def)
qed

lemma run_keeps_fund_agreement:
  "asOfDate s = asOfDate t \<Longrightarrow> fund_side s = fund_side t \<Longrightarrow>
   fund_side (run s events) = fund_side (run t events)"
proof (induction events arbitrary: s t)
  case Nil
  then show ?case by (simp add: run_def)
next
  case (Cons e events)
  have "fund_side (run (step s e) events) = fund_side (run (step t e) events)"
    using step_keeps_fund_agreement [OF Cons.prems, of e] by (intro Cons.IH) simp_all
  then show ?case by (simp add: run_def)
qed

lemma run_keeps_portfolio_agreement:
  "asOfDate s = asOfDate t \<Longrightarrow> activeTab s = activeTab t \<Longrightarrow>
   portfolio_side s = portfolio_side t \<Longrightarrow>
   portfolio_side (run s events) = portfolio_side (run t events)"
proof (induction events arbitrary: s t)
  case Nil
  then show ?case by (simp add: run_def)
next
  case (Cons e events)
  have "portfolio_side (run (step s e) events) = portfolio_side (run (step t e) events)"
    using step_keeps_portfolio_agreement [OF Cons.prems, of e] by (intro Cons.IH) simp_all
  then show ?case by (simp add: run_def)
qed

lemma run_append: "run st (xs @ ys) = run (run st xs) ys"
  by (simp add: run_def)

lemma run_Cons: "run st (e # es) = run (step st e) es"
  by (simp add: run_def)

text \<open>
  Claim C4 includes the error state among the state that each mode keeps for itself.
  The page has one \<^verbatim>\<open>error\<close> state, which both modes write. Take two runs that differ
  only in the outcome of the portfolio request: the portfolio request is sent, the user
  moves to the funds tab and sends a fund request, the fund request fails, and then the
  portfolio request settles. When it succeeds the page shows the failure of the fund
  request; when it fails that message is replaced.
\<close>

theorem shared_error_overwritten_by_other_mode:
  "error (run ready_state
            [PortfolioSubmit, SetActiveTab FundsTab, FundFetch,
             FundSettled (NotOk ''fund service down''),
             PortfolioSettled (Fulfilled example_response)])
     = Some ''fund service down''
   \<and> error (run ready_state
            [PortfolioSubmit, SetActiveTab FundsTab, FundFetch,
             FundSettled (NotOk ''fund service down''),
             PortfolioSettled (NotOk ''portfolio service down'')])
     = Some ''portfolio service down''"
proof -
  have t: "trim ''AAPL'' = ''AAPL''" "trim ''VOO'' = ''VOO''"
    by (simp_all add: trim_def is_ws1_def is_ws2_def is_ws3_def)
  show ?thesis
    by (simp add: run_def ready_state_def initial_state_def example_row_def example_fund_row_def
        handlePortfolioSubmit_start_def handlePortfolioSubmit_settle_def handleFundFetch_start_def
        handleFundFetch_settle_def portfolioPayload_def fundPayload_def t
        fund_failure_message_def portfolio_failure_message_def)
qed

text \<open>
  Claim C4, amended. Each mode keeps its own input rows, result, result time stamp and
  loading flag. A request of one mode, whatever its outcome, leaves these fields of the
  other mode unchanged, and two runs that differ only in the outcome of one request of
  one mode agree on these fields of the other mode at the end. The error message is a
  single state shared by both modes: a handler of either mode that sends its request
  clears it, a request of either mode that fails overwrites it with the message of
  that failure, and a request that succeeds leaves it as it is.
\<close>

theorem modes_keep_separate_loading_and_result:
  "fund_side (fst (handlePortfolioSubmit_start st)) = fund_side st
   \<and> fund_side (handlePortfolioSubmit_settle outcome st) = fund_side st
   \<and> portfolio_side (fst (handleFundFetch_start st)) = portfolio_side st
   \<and> portfolio_side (handleFundFetch_settle outcome st) = portfolio_side st
   \<and> fund_side (run st (before @ PortfolioSettled outcome # after)) =
       fund_side (run st (before @ PortfolioSettled outcome' # after))
   \<and> portfolio_side (run st (before @ FundSettled outcome # after)) =
       portfolio_side (run st (before @ FundSettled outcome' # after))
   \<and> (snd (handlePortfolioSubmit_start st) \<noteq> None \<longrightarrow>
        error (fst (handlePortfolioSubmit_start st)) = None)
   \<and> (snd (handleFundFetch_start st) \<noteq> None \<longrightarrow>
        error (fst (handleFundFetch_start st)) = None)
   \<and> (is_failure outcome \<longrightarrow>
        error (handlePortfolioSubmit_settle outcome st) = Some (portfolio_failure_message outcome)
        \<and> error (handleFundFetch_settle outcome st) = Some (fund_failure_message outcome))
   \<and> error (handlePortfolioSubmit_settle (Fulfilled payload) st) = error st
   \<and> error (handleFundFetch_settle (Fulfilled payload) st) = error st"
proof -
  have f: "fund_side (run st (before @ PortfolioSettled outcome # after)) =
       fund_side (run st (before @ PortfolioSettled outcome' # after))"
    unfolding run_append run_Cons step.simps
    by (rule run_keeps_fund_agreement) (simp_all add: portfolio_settle_frame)
  have p: "portfolio_side (run st (before @ FundSettled outcome # after)) =
       portfolio_side (run st (before @ FundSettled outcome' # after))"
    unfolding run_append run_Cons step.simps
    by (rule run_keeps_portfolio_agreement) (simp_all add: fund_settle_frame)
  have cp: "error (fst (handlePortfolioSubmit_start st)) = None"
    if "snd (handlePortfolioSubmit_start st) \<noteq> None"
    using that by (simp add: handlePortfolioSubmit_start_def split: if_splits)
  have cf: "error (fst (handleFundFetch_start st)) = None"
    if "snd (handleFundFetch_start st) \<noteq> None"
    using that by (simp add: handleFundFetch_start_def split: if_splits)
  have ow: "error (handlePortfolioSubmit_settle outcome st) = Some (portfolio_failure_message outcome)
        \<and> error (handleFundFetch_settle outcome st) = Some (fund_failure_message outcome)"
    if "is_failure outcome"
    using that
    by (cases outcome)
       (simp_all add: is_failure_def handlePortfolioSubmit_settle_def handleFundFetch_settle_def)
  have kp: "error (handlePortfolioSubmit_settle (Fulfilled payload) st) = error st"
    by (simp add: handlePortfolioSubmit_settle_def)
  have kf: "error (handleFundFetch_settle (Fulfilled payload) st) = error st"
    by (simp add: handleFundFetch_settle_def)
  from f p cp cf ow kp kf portfolio_start_frame [of st] portfolio_settle_frame [of outcome st]
    fund_start_frame [of st] fund_settle_frame [of outcome st]
  show ?thesis by blast
qed

theorem modes_keep_separate_witness:
  "error ready_state_with_error = Some ''Add at least one company ticker.''
   \<and> snd (handlePortfolioSubmit_start ready_state_with_error) \<noteq> None
   \<and> error (fst (handlePortfolioSubmit_start ready_state_with_error)) = None
   \<and> snd (handleFundFetch_start ready_state_with_error) \<noteq> None
   \<and> error (fst (handleFundFetch_start ready_state_with_error)) = None
   \<and> is_failure (NotOk ''fund service down'')
   \<and> error (handlePortfolioSubmit_settle (NotOk ''fund service down'') ready_state_with_error)
       = Some ''fund service down''
   \<and> error (handleFundFetch_settle (NotOk ''fund service down'') ready_state_with_error)
       = Some ''fund service down''
   \<and> fundLoading (handlePortfolioSubmit_settle (NotOk ''fund service down'')
                    (fst (handleFundFetch_start ready_state_with_error)))"
proof -
  have t: "trim ''AAPL'' = ''AAPL''" "trim ''VOO'' = ''VOO''"
    by (simp_all add: trim_def is_ws1_def is_ws2_def is_ws3_def)
  have sp: "snd (handlePortfolioSubmit_start ready_state_with_error) \<noteq> None"
    by (simp add: handlePortfolioSubmit_start_def ready_state_with_error_def ready_state_def
        initial_state_def portfolioPayload_def example_row_def t)
  have sf: "snd (handleFundFetch_start ready_state_with_error) \<noteq> None"
    by (simp add: handleFundFetch_start_def ready_state_with_error_def ready_state_def
        initial_state_def fundPayload_def example_fund_row_def t)
  have fl: "fund_side (fst (handleFundFetch_start ready_state_with_error)) =
            ([example_fund_row ''VOO'' ''50''], [], None, True)"
    by (simp add: handleFundFetch_start_def ready_state_with_error_def ready_state_def
        initial_state_def fundPayload_def example_fund_row_def t fund_side_def)
  have e: "error ready_state_with_error = Some ''Add at least one company ticker.''"
    by (simp add: ready_state_with_error_def)
  have fail: "is_failure (NotOk ''fund service down'')"
    by (simp add: is_failure_def)
  note m = modes_keep_separate_loading_and_result
             [of ready_state_with_error "NotOk ''fund service down''"]
  note n = modes_keep_separate_loading_and_result
             [of "fst (handleFundFetch_start ready_state_with_error)" "NotOk ''fund service down''"]
  from m sp have c1: "error (fst (handlePortfolioSubmit_start ready_state_with_error)) = None"
    by blast
  from m sf have c2: "error (fst (handleFundFetch_start ready_state_with_error)) = None"
    by blast
  from m fail have c3:
    "error (handlePortfolioSubmit_settle (NotOk ''fund service down'') ready_state_with_error)
       = Some (portfolio_failure_message (NotOk ''fund service down''))"
    "error (handleFundFetch_settle (NotOk ''fund service down'') ready_state_with_error)
       = Some (fund_failure_message (NotOk ''fund service down''))"
    by blast+
  from n have "fund_side (handlePortfolioSubmit_settle (NotOk ''fund service down'')
                    (fst (handleFundFetch_start ready_state_with_error))) =
               fund_side (fst (handleFundFetch_start ready_state_with_error))"
    by blast
  with fl have c4: "fundLoading (handlePortfolioSubmit_settle (NotOk ''fund service down'')
                    (fst (handleFundFetch_start ready_state_with_error)))"
    by (simp add: fund_side_def)
  from e sp sf fail c1 c2 c3 c4 show ?thesis
    by (simp add: portfolio_failure_message_def fund_failure_message_def)
qed

end
